theory Spec2Isabelle
  imports Complex_Main
begin

section \<open>Screen layout data\<close>

text \<open>
  The video output of the core (\<^verbatim>\<open>src/libretro/opengl.cpp\<close>) composes the two emulated
  screens into one picture. The arrangement is an enumeration; the hybrid arrangements
  carry a second enumeration that places the small screen.
\<close>

datatype ScreenLayout =
  TopBottom | BottomTop | LeftRight | RightLeft | TopOnly | BottomOnly | HybridTop | HybridBottom

datatype SmallScreenLayout = SmallScreenTop | SmallScreenBottom | SmallScreenDuplicate

text \<open>
  The class \<^verbatim>\<open>ScreenLayoutData\<close> is declared in \<^verbatim>\<open>screenlayout.hpp\<close>, which is not among the
  sources. The compositor only reads it through accessors; each accessor it calls is a
  field here, of the unsigned type the accessor returns.
\<close>

record ScreenLayoutData =
  Layout :: ScreenLayout
  HybridSmallScreenLayout :: SmallScreenLayout
  ScreenWidth :: nat
  ScreenHeight :: nat
  ScaledScreenGap :: nat
  HybridRatio :: nat
  BufferWidth :: nat
  BufferHeight :: nat

text \<open>
  Modelled from the spec: the accessor \<^verbatim>\<open>ScreenLayoutData::IsHybridLayout\<close> is not among
  the sources. The spec names the two hybrid arrangements, \<open>HybridTop\<close> and
  \<open>HybridBottom\<close>.
\<close>

definition IsHybridLayout :: "ScreenLayoutData \<Rightarrow> bool" where
  "IsHybridLayout d = (Layout d = HybridTop \<or> Layout d = HybridBottom)"

section \<open>The geometry of a frame\<close>

text \<open>
  A \<^verbatim>\<open>float\<close> is a real number here. The positions of the vertices are sums and
  products of screen sizes, whole numbers that single precision holds exactly, and are
  computed in exact arithmetic. The texture coordinates at the seam are not whole numbers:
  the quotient and the two sums that give them are rounded to single precision, as the
  source computes them.
\<close>

text \<open>
  Rounding to the nearest integer, a tie going to the even one, and rounding to single
  precision: the nearest number with a significand of 24 bits in the binade of the
  argument. \<open>binade n e a\<close> searches downwards from the exponent \<open>e\<close>, for at most \<open>n\<close>
  steps, for the first power of two that is not above \<open>a\<close>; from \<open>127\<close> and with \<open>253\<close>
  steps it ends at \<open>-126\<close>, the exponent of the subnormal numbers. Results beyond the
  largest finite \<^verbatim>\<open>float\<close> are not modelled.
\<close>

definition round_even :: "real \<Rightarrow> int" where
  "round_even x =
     (let f = \<lfloor>x\<rfloor>; r = x - of_int f
      in if r < 1/2 then f else if 1/2 < r then f + 1 else if even f then f else f + 1)"

fun binade :: "nat \<Rightarrow> int \<Rightarrow> real \<Rightarrow> int" where
  "binade 0 e a = e"
| "binade (Suc n) e a = (if 2 powi e \<le> a then e else binade n (e - 1) a)"

definition float32 :: "real \<Rightarrow> real" where
  "float32 x =
     (if x = 0 then 0
      else let e = binade 253 127 \<bar>x\<bar>; ulp = 2 powi (e - 23)
           in of_int (round_even (x / ulp)) * ulp)"

text \<open>
  The local variables that the \<^verbatim>\<open>switch\<close> of \<^verbatim>\<open>InitializeFrameState\<close> assigns are the
  fields of a record; the two scale factors are the constant \<open>1\<close> in the source and stay
  constants here.
\<close>

record frame_locals =
  top_screen_x :: real
  top_screen_y :: real
  bottom_screen_x :: real
  bottom_screen_y :: real
  primary_x :: real
  primary_y :: real
  primary_tex_v0 :: "real \<times> real"
  primary_tex_v1 :: "real \<times> real"
  primary_tex_v2 :: "real \<times> real"
  primary_tex_v3 :: "real \<times> real"
  primary_tex_v4 :: "real \<times> real"
  primary_tex_v5 :: "real \<times> real"

definition initial_locals :: frame_locals where
  "initial_locals =
     \<lparr> top_screen_x = 0, top_screen_y = 0, bottom_screen_x = 0, bottom_screen_y = 0,
       primary_x = 0, primary_y = 0,
       primary_tex_v0 = (0, 0), primary_tex_v1 = (0, 0), primary_tex_v2 = (0, 0),
       primary_tex_v3 = (0, 0), primary_tex_v4 = (0, 0), primary_tex_v5 = (0, 0) \<rparr>"

definition top_screen_scale :: real where
  "top_screen_scale = 1"

definition bottom_screen_scale :: real where
  "bottom_screen_scale = 1"

text \<open>
  \<^verbatim>\<open>const float pixel_pad = 1.0f / (192 * 2 + 2);\<close> The divisor is the integer \<open>386\<close>,
  which converts to \<^verbatim>\<open>float\<close> exactly; the quotient is rounded. Where the source writes
  \<^verbatim>\<open>0.5f - pixel_pad\<close> and \<^verbatim>\<open>0.5f + pixel_pad\<close>, the definitions below have the rounded
  difference and sum.
\<close>

definition pixel_pad :: real where
  "pixel_pad = float32 (1 / (192 * 2 + 2))"

text \<open>The \<^verbatim>\<open>switch (screenLayout.Layout())\<close>, one case per arrangement, in source order.\<close>

definition layout_switch :: "ScreenLayoutData \<Rightarrow> frame_locals" where
  "layout_switch d =
     (let screen_width = real (ScreenWidth d);
          screen_height = real (ScreenHeight d);
          screen_gap = real (ScaledScreenGap d)
      in case Layout d of
           TopBottom \<Rightarrow> initial_locals\<lparr>bottom_screen_y := screen_height + screen_gap\<rparr>
         | BottomTop \<Rightarrow> initial_locals\<lparr>top_screen_y := screen_height + screen_gap\<rparr>
         | LeftRight \<Rightarrow> initial_locals\<lparr>bottom_screen_x := screen_width\<rparr>
         | RightLeft \<Rightarrow> initial_locals\<lparr>top_screen_x := screen_width\<rparr>
         | TopOnly \<Rightarrow> initial_locals\<lparr>bottom_screen_y := screen_height\<rparr>
         | BottomOnly \<Rightarrow> initial_locals\<lparr>top_screen_y := screen_height\<rparr>
         | HybridTop \<Rightarrow>
             initial_locals
               \<lparr> primary_x := screen_width * real (HybridRatio d),
                 primary_y := screen_height * real (HybridRatio d),
                 primary_tex_v0 := (0, 0),
                 primary_tex_v1 := (0, float32 (1/2 - pixel_pad)),
                 primary_tex_v2 := (1, float32 (1/2 - pixel_pad)),
                 primary_tex_v3 := (0, 0),
                 primary_tex_v4 := (1, 0),
                 primary_tex_v5 := (1, float32 (1/2 - pixel_pad)) \<rparr>
         | HybridBottom \<Rightarrow>
             initial_locals
               \<lparr> primary_x := screen_width * real (HybridRatio d),
                 primary_y := screen_height * real (HybridRatio d),
                 primary_tex_v0 := (0, float32 (1/2 + pixel_pad)),
                 primary_tex_v1 := (0, 1),
                 primary_tex_v2 := (1, 1),
                 primary_tex_v3 := (0, float32 (1/2 + pixel_pad)),
                 primary_tex_v4 := (1, float32 (1/2 + pixel_pad)),
                 primary_tex_v5 := (1, 1) \<rparr>)"

text \<open>
  A vertex is four floats: position \<open>x\<close>, \<open>y\<close> and texture coordinate \<open>t_x\<close>, \<open>t_y\<close>.
  The macro \<^verbatim>\<open>SETVERTEX(i, x, y, t_x, t_y)\<close> stores vertex \<open>i\<close> at offsets \<open>4 i\<close> to
  \<open>4 i + 3\<close> of \<^verbatim>\<open>screen_vertices\<close>, an array of 72 floats; the source only uses the
  indices \<open>0\<close> to \<open>17\<close>, all in range.
\<close>

type_synonym vertex = "real \<times> real \<times> real \<times> real"

fun SETVERTEX :: "real list \<Rightarrow> nat \<times> vertex \<Rightarrow> real list" where
  "SETVERTEX vs (i, x, y, t_x, t_y) =
     vs[4 * i + 0 := x, 4 * i + 1 := y, 4 * i + 2 := t_x, 4 * i + 3 := t_y]"

text \<open>
  The \<^verbatim>\<open>SETVERTEX\<close> statements that one run of \<^verbatim>\<open>InitializeFrameState\<close> executes, in
  program order. The hybrid branch is three parts: the primary screen, the
  \<^verbatim>\<open>if\<close>/\<^verbatim>\<open>else if\<close> under the comment "Top screen" and the one under "Bottom Screen".
\<close>

definition primary_screen_writes :: "frame_locals \<Rightarrow> (nat \<times> vertex) list" where
  "primary_screen_writes l =
     [ (0, 0, 0, primary_tex_v0 l),
       (1, 0, primary_y l, primary_tex_v1 l),
       (2, primary_x l, primary_y l, primary_tex_v2 l),
       (3, 0, 0, primary_tex_v3 l),
       (4, primary_x l, 0, primary_tex_v4 l),
       (5, primary_x l, primary_y l, primary_tex_v5 l) ]"

definition small_top_writes :: "ScreenLayoutData \<Rightarrow> frame_locals \<Rightarrow> (nat \<times> vertex) list" where
  "small_top_writes d l =
     (let screen_width = real (ScreenWidth d);
          screen_height = real (ScreenHeight d);
          layout = Layout d;
          smallScreenLayout = HybridSmallScreenLayout d
      in if smallScreenLayout = SmallScreenTop \<and> layout = HybridTop then
           [ (6, primary_x l, 0, 0, float32 (1/2 + pixel_pad)),
             (7, primary_x l, 0 + screen_height, 0, 1),
             (8, primary_x l + screen_width, 0 + screen_height, 1, 1),
             (9, primary_x l, 0, 0, float32 (1/2 + pixel_pad)),
             (10, primary_x l + screen_width, 0, 1, float32 (1/2 + pixel_pad)),
             (11, primary_x l + screen_width, 0 + screen_height, 1, 1) ]
         else if smallScreenLayout = SmallScreenDuplicate
                 \<or> (layout = HybridBottom \<and> smallScreenLayout = SmallScreenTop) then
           [ (6, primary_x l, 0, 0, 0),
             (7, primary_x l, 0 + screen_height, 0, float32 (1/2 - pixel_pad)),
             (8, primary_x l + screen_width, 0 + screen_height, 1, float32 (1/2 - pixel_pad)),
             (9, primary_x l, 0, 0, 0),
             (10, primary_x l + screen_width, 0, 1, 0),
             (11, primary_x l + screen_width, 0 + screen_height, 1, float32 (1/2 - pixel_pad)) ]
         else [])"

definition small_bottom_writes :: "ScreenLayoutData \<Rightarrow> frame_locals \<Rightarrow> (nat \<times> vertex) list" where
  "small_bottom_writes d l =
     (let screen_width = real (ScreenWidth d);
          screen_height = real (ScreenHeight d);
          layout = Layout d;
          smallScreenLayout = HybridSmallScreenLayout d
      in if smallScreenLayout = SmallScreenBottom \<and> layout = HybridTop then
           [ (6, primary_x l, primary_y l - screen_height, 0, float32 (1/2 + pixel_pad)),
             (7, primary_x l, primary_y l, 0, 1),
             (8, primary_x l + screen_width, primary_y l, 1, 1),
             (9, primary_x l, primary_y l - screen_height, 0, float32 (1/2 + pixel_pad)),
             (10, primary_x l + screen_width, primary_y l - screen_height, 1, float32 (1/2 + pixel_pad)),
             (11, primary_x l + screen_width, primary_y l, 1, 1) ]
         else if smallScreenLayout = SmallScreenBottom \<and> layout = HybridBottom then
           [ (6, primary_x l, primary_y l - screen_height, 0, 0),
             (7, primary_x l, primary_y l, 0, float32 (1/2 - pixel_pad)),
             (8, primary_x l + screen_width, primary_y l, 1, float32 (1/2 - pixel_pad)),
             (9, primary_x l, primary_y l - screen_height, 0, 0),
             (10, primary_x l + screen_width, primary_y l - screen_height, 1, 0),
             (11, primary_x l + screen_width, primary_y l, 1, float32 (1/2 - pixel_pad)) ]
         else if smallScreenLayout = SmallScreenDuplicate then
           [ (12, primary_x l, primary_y l - screen_height, 0, float32 (1/2 + pixel_pad)),
             (13, primary_x l, primary_y l, 0, 1),
             (14, primary_x l + screen_width, primary_y l, 1, 1),
             (15, primary_x l, primary_y l - screen_height, 0, float32 (1/2 + pixel_pad)),
             (16, primary_x l + screen_width, primary_y l - screen_height, 1, float32 (1/2 + pixel_pad)),
             (17, primary_x l + screen_width, primary_y l, 1, 1) ]
         else [])"

definition two_screen_writes :: "ScreenLayoutData \<Rightarrow> frame_locals \<Rightarrow> (nat \<times> vertex) list" where
  "two_screen_writes d l =
     (let screen_width = real (ScreenWidth d);
          screen_height = real (ScreenHeight d)
      in [ (0, top_screen_x l, top_screen_y l, 0, 0),
           (1, top_screen_x l, top_screen_y l + screen_height * top_screen_scale,
               0, float32 (1/2 - pixel_pad)),
           (2, top_screen_x l + screen_width * top_screen_scale,
               top_screen_y l + screen_height * top_screen_scale, 1, float32 (1/2 - pixel_pad)),
           (3, top_screen_x l, top_screen_y l, 0, 0),
           (4, top_screen_x l + screen_width * top_screen_scale, top_screen_y l, 1, 0),
           (5, top_screen_x l + screen_width * top_screen_scale,
               top_screen_y l + screen_height * top_screen_scale, 1, float32 (1/2 - pixel_pad)),
           (6, bottom_screen_x l, bottom_screen_y l, 0, float32 (1/2 + pixel_pad)),
           (7, bottom_screen_x l, bottom_screen_y l + screen_height * bottom_screen_scale,
               0, 1),
           (8, bottom_screen_x l + screen_width * bottom_screen_scale,
               bottom_screen_y l + screen_height * bottom_screen_scale, 1, 1),
           (9, bottom_screen_x l, bottom_screen_y l, 0, float32 (1/2 + pixel_pad)),
           (10, bottom_screen_x l + screen_width * bottom_screen_scale, bottom_screen_y l,
               1, float32 (1/2 + pixel_pad)),
           (11, bottom_screen_x l + screen_width * bottom_screen_scale,
               bottom_screen_y l + screen_height * bottom_screen_scale, 1, 1) ])"

definition vertex_writes :: "ScreenLayoutData \<Rightarrow> (nat \<times> vertex) list" where
  "vertex_writes d =
     (let l = layout_switch d
      in if IsHybridLayout d
         then primary_screen_writes l @ small_top_writes d l @ small_bottom_writes d l
         else two_screen_writes d l)"

text \<open>The array after the statements have run, and the number of vertices they set.\<close>

definition rebuild_vertices :: "ScreenLayoutData \<Rightarrow> real list \<Rightarrow> real list" where
  "rebuild_vertices d vs = foldl SETVERTEX vs (vertex_writes d)"

definition vertices_written :: "ScreenLayoutData \<Rightarrow> nat" where
  "vertices_written d = card (fst ` set (vertex_writes d))"

section \<open>The state of the renderer and of the graphics context\<close>

text \<open>
  The uniform block \<^verbatim>\<open>GL_ShaderConfig\<close>: two floats, two 32-bit unsigned integers and the
  four floats of the cursor box.
\<close>

record ShaderConfig =
  uScreenSize :: "real \<times> real"
  u3DScale :: nat
  uFilterMode :: nat
  cursorPos :: "real \<times> real \<times> real \<times> real"

text \<open>\<^verbatim>\<open>memset(&GL_ShaderConfig, 0, sizeof(GL_ShaderConfig))\<close>\<close>

definition zero_ShaderConfig :: ShaderConfig where
  "zero_ShaderConfig =
     \<lparr> uScreenSize = (0, 0), u3DScale = 0, uFilterMode = 0, cursorPos = (0, 0, 0, 0) \<rparr>"

text \<open>
  What a buffer object of the graphics context holds: the uniform block, the vertex
  array, or a data store whose contents were never written (\<^verbatim>\<open>glBufferData\<close> with a
  null pointer).
\<close>

datatype buffer_data = UniformData ShaderConfig | VertexData "real list" | Uninitialized

text \<open>
  The state is the file-level variables of \<^verbatim>\<open>opengl.cpp\<close>, under their names, and the
  part of the graphics context they refer to: the names of the live textures, vertex
  arrays and shader or program objects, and the live buffer objects with their contents.
  Object names are the unsigned integers the driver hands out; \<open>0\<close> names no object.
  \<open>gl_error\<close> is the error flag of the context: the first error recorded since the flag
  was last clear; this file of the source never reads or clears it.
  \<open>GPU3D_CurrentRenderer\<close> says whether the emulator has a 3D renderer assigned (the
  pointer \<^verbatim>\<open>GPU3D::CurrentRenderer\<close> is not null). The state manager calls
  (\<^verbatim>\<open>glsm_ctl\<close>) and the debug labels of the context are not part of the model.
\<close>

datatype gl_error_code = GL_NO_ERROR | GL_INVALID_VALUE

record world =
  openGlDebugAvailable :: bool
  refresh_opengl :: bool
  context_initialized :: bool
  shader :: "nat \<times> nat \<times> nat"
  screen_framebuffer_texture :: nat
  screen_vertices :: "real list"
  vao :: nat
  vbo :: nat
  GL_ShaderConfig :: ShaderConfig
  ubo :: nat
  gl_textures :: "nat set"
  gl_vertex_arrays :: "nat set"
  gl_shaders :: "nat set"
  gl_buffers :: "nat \<rightharpoonup> buffer_data"
  gl_error :: gl_error_code
  GPU3D_CurrentRenderer :: bool

text \<open>
  The state when the library is loaded: the initialisers of the source, zero for every
  variable without one, and a context without objects.
\<close>

definition initial_world :: world where
  "initial_world =
     \<lparr> openGlDebugAvailable = False, refresh_opengl = True, context_initialized = False,
       shader = (0, 0, 0), screen_framebuffer_texture = 0,
       screen_vertices = replicate 72 0, vao = 0, vbo = 0,
       GL_ShaderConfig = zero_ShaderConfig, ubo = 0,
       gl_textures = {}, gl_vertex_arrays = {}, gl_shaders = {}, gl_buffers = Map.empty,
       gl_error = GL_NO_ERROR, GPU3D_CurrentRenderer = False \<rparr>"

definition ContextInitialized :: "world \<Rightarrow> bool" where
  "ContextInitialized w = context_initialized w"

definition RequestOpenGlRefresh :: "world \<Rightarrow> world" where
  "RequestOpenGlRefresh w = w\<lparr>refresh_opengl := True\<rparr>"

subsection \<open>The calls into the graphics library\<close>

text \<open>
  The graphics library is not part of the repository. Its calls are modelled by the
  effect its reference gives them on the objects above. \<^verbatim>\<open>glDeleteTextures\<close>,
  \<^verbatim>\<open>glDeleteVertexArrays\<close> and \<^verbatim>\<open>glDeleteBuffers\<close> remove the object a name names and
  silently ignore \<open>0\<close> and a name that names no object. \<^verbatim>\<open>glDeleteShader\<close> and
  \<^verbatim>\<open>glDeleteProgram\<close> remove the object and ignore \<open>0\<close> as well, but record
  \<^verbatim>\<open>GL_INVALID_VALUE\<close> for any other name that names no object; shader and program
  objects share their names. (The name \<open>0\<close> is never live in a state these calls
  produce, so removing it is ignoring it.) Writing through a buffer binding changes the
  contents of that buffer if it is a live buffer object; the errors of binding or writing
  a name that is not live are not modelled.
\<close>

definition record_error :: "gl_error_code \<Rightarrow> world \<Rightarrow> world" where
  "record_error e w = (if gl_error w = GL_NO_ERROR then w\<lparr>gl_error := e\<rparr> else w)"

definition glDeleteTextures :: "nat \<Rightarrow> world \<Rightarrow> world" where
  "glDeleteTextures n w = w\<lparr>gl_textures := gl_textures w - {n}\<rparr>"

definition glDeleteVertexArrays :: "nat \<Rightarrow> world \<Rightarrow> world" where
  "glDeleteVertexArrays n w = w\<lparr>gl_vertex_arrays := gl_vertex_arrays w - {n}\<rparr>"

definition glDeleteBuffers :: "nat \<Rightarrow> world \<Rightarrow> world" where
  "glDeleteBuffers n w = w\<lparr>gl_buffers := (gl_buffers w)(n := None)\<rparr>"

definition glDeleteShader :: "nat \<Rightarrow> world \<Rightarrow> world" where
  "glDeleteShader n w =
     (if n = 0 \<or> n \<in> gl_shaders w then w\<lparr>gl_shaders := gl_shaders w - {n}\<rparr>
      else record_error GL_INVALID_VALUE w)"

definition glDeleteProgram :: "nat \<Rightarrow> world \<Rightarrow> world" where
  "glDeleteProgram n w =
     (if n = 0 \<or> n \<in> gl_shaders w then w\<lparr>gl_shaders := gl_shaders w - {n}\<rparr>
      else record_error GL_INVALID_VALUE w)"

text \<open>
  \<^verbatim>\<open>OpenGL::DeleteShaderProgram\<close>, of the emulator library, deletes the two shaders and
  the program of a shader triple.
\<close>

definition DeleteShaderProgram :: "nat \<times> nat \<times> nat \<Rightarrow> world \<Rightarrow> world" where
  "DeleteShaderProgram ids w =
     (case ids of (vs, fs, prog) \<Rightarrow> glDeleteProgram prog (glDeleteShader fs (glDeleteShader vs w)))"

definition buffer_write :: "nat \<Rightarrow> buffer_data \<Rightarrow> world \<Rightarrow> world" where
  "buffer_write n c w =
     (if n \<in> dom (gl_buffers w) then w\<lparr>gl_buffers := (gl_buffers w)(n \<mapsto> c)\<rparr> else w)"

text \<open>
  \<^verbatim>\<open>glMapBuffer\<close> may return a null pointer; the source then skips the copy. Whether the
  driver maps the buffer is an input (\<open>mapped\<close>).
\<close>

definition upload_uniforms :: "bool \<Rightarrow> world \<Rightarrow> world" where
  "upload_uniforms mapped w =
     (if mapped then buffer_write (ubo w) (UniformData (GL_ShaderConfig w)) w else w)"

section \<open>Rebuilding the frame state\<close>

text \<open>
  The configuration the renderer polls, and what the driver answers during one frame:
  whether the uniform buffer could be mapped in \<^verbatim>\<open>InitializeFrameState\<close> and in the
  cursor branch of \<^verbatim>\<open>Render\<close>.
\<close>

datatype ScreenFilter = Nearest | Linear

record video_config =
  CursorSize :: real
  ScaleFactor :: nat
  ScreenFilter :: ScreenFilter
  refresh_mapped :: bool
  cursor_mapped :: bool

text \<open>
  \<^verbatim>\<open>InitializeFrameState\<close>: clear the refresh flag, fill the uniform block (the cursor box
  with the value \<open>-1\<close>), copy it to the uniform buffer if that could be mapped, set the
  vertices and copy the whole array to the vertex buffer. The render settings it hands to
  the emulator are not part of the state.
\<close>

definition InitializeFrameState :: "video_config \<Rightarrow> ScreenLayoutData \<Rightarrow> world \<Rightarrow> world" where
  "InitializeFrameState c d w =
     (let w1 = w\<lparr>refresh_opengl := False\<rparr>;
          w2 = w1\<lparr>GL_ShaderConfig := (GL_ShaderConfig w1)
                 \<lparr> uScreenSize := (real (BufferWidth d), real (BufferHeight d)),
                   u3DScale := ScaleFactor c,
                   cursorPos := (-1, -1, -1, -1) \<rparr>\<rparr>;
          w3 = upload_uniforms (refresh_mapped c) w2;
          w4 = w3\<lparr>screen_vertices := rebuild_vertices d (screen_vertices w3)\<rparr>
      in buffer_write (vbo w4) (VertexData (screen_vertices w4)) w4)"

section \<open>Presenting a frame\<close>

record InputState =
  CursorEnabled :: bool
  TouchX :: int
  TouchY :: int

text \<open>
  The native size of a screen, \<open>256\<close> by \<open>192\<close> pixels; the two constants come from a
  header of the emulator that is not among the sources.
\<close>

definition NDS_SCREEN_WIDTH :: real where
  "NDS_SCREEN_WIDTH = 256"

definition NDS_SCREEN_HEIGHT :: real where
  "NDS_SCREEN_HEIGHT = 192"

text \<open>The cursor box that \<^verbatim>\<open>Render\<close> computes, component by component as in the source.\<close>

definition cursor_box :: "video_config \<Rightarrow> InputState \<Rightarrow> real \<times> real \<times> real \<times> real" where
  "cursor_box c state =
     (let cursorSize = CursorSize c
      in ( (real_of_int (TouchX state) - cursorSize) / (NDS_SCREEN_HEIGHT * 1.35),
           ((real_of_int (TouchY state) - cursorSize) / (NDS_SCREEN_WIDTH * 1.5)) + 0.5,
           (real_of_int (TouchX state) + cursorSize) / (NDS_SCREEN_HEIGHT * 1.35),
           ((real_of_int (TouchY state) + cursorSize) / (NDS_SCREEN_WIDTH * 1.5)) + 0.5 ))"

text \<open>
  What one call of \<^verbatim>\<open>Render\<close> asks of the context and of the host: whether it cleared
  the framebuffer, the viewport, the texture filter, the vertex count of the one draw call
  and the size it reports to the host's video callback.
\<close>

record frame =
  cleared :: bool
  viewport :: "nat \<times> nat"
  texture_filter :: ScreenFilter
  draw_count :: nat
  video_refresh :: "nat \<times> nat"

text \<open>
  \<^verbatim>\<open>Render\<close>: rebuild the frame state if a refresh is pending; if the cursor is enabled,
  store its box in the uniform block and copy the block to the uniform buffer if that
  could be mapped; draw. The source asserts that the accelerated renderer is the current
  one; binding the framebuffer, the shader program, the buffers and the emulator's output
  texture changes none of the objects of the state.
\<close>

definition Render ::
  "video_config \<Rightarrow> InputState \<Rightarrow> ScreenLayoutData \<Rightarrow> world \<Rightarrow> world \<times> frame" where
  "Render c state d w =
     (let virtual_cursor = CursorEnabled state;
          refresh = refresh_opengl w;
          w1 = (if refresh then InitializeFrameState c d w else w);
          w2 = (if virtual_cursor
                then upload_uniforms (cursor_mapped c)
                       (w1\<lparr>GL_ShaderConfig := (GL_ShaderConfig w1)\<lparr>cursorPos := cursor_box c state\<rparr>\<rparr>)
                else w1)
      in (w2,
          \<lparr> cleared = refresh,
            viewport = (BufferWidth d, BufferHeight d),
            texture_filter = (if ScreenFilter c = Linear then Linear else Nearest),
            draw_count = (if HybridSmallScreenLayout d = SmallScreenDuplicate then 18 else 12),
            video_refresh = (BufferWidth d, BufferHeight d) \<rparr>))"

section \<open>The life cycle of the graphics context\<close>

text \<open>
  \<^verbatim>\<open>context_destroy\<close>: delete the output texture, the vertex array, the vertex buffer and
  the shader program, in this order. It assigns none of the file-level variables.
\<close>

definition context_destroy :: "world \<Rightarrow> world" where
  "context_destroy w =
     (let w1 = glDeleteTextures (screen_framebuffer_texture w) w;
          w2 = glDeleteVertexArrays (vao w1) w1;
          w3 = glDeleteBuffers (vbo w2) w2
      in DeleteShaderProgram (shader w3) w3)"

text \<open>
  What the environment answers during one context reset: whether the accelerated renderer
  is the current one, whether the debug extension is there, whether the shader program
  builds and links and under which names, and the names the driver generates for the
  uniform buffer, the vertex buffer, the vertex array and the texture.
\<close>

record reset_env =
  UsingOpenGl :: bool
  debug_caps :: bool
  build_ok :: bool
  link_ok :: bool
  built_ids :: "nat \<times> nat \<times> nat"
  gen_ubo :: nat
  gen_vbo :: nat
  gen_vao :: nat
  gen_texture :: nat

text \<open>
  \<^verbatim>\<open>OpenGL::BuildShaderProgram\<close> and \<^verbatim>\<open>OpenGL::LinkShaderProgram\<close> belong to the emulator
  library. The model takes their result from the environment: a successful build stores
  the three new names in \<^verbatim>\<open>shader\<close> and makes them live objects; a failed build or link
  leaves no object of its own behind.
\<close>

definition BuildShaderProgram :: "reset_env \<Rightarrow> world \<Rightarrow> bool \<times> world" where
  "BuildShaderProgram r w =
     (if build_ok r
      then (True, (case built_ids r of (vs, fs, prog) \<Rightarrow>
                     w\<lparr>shader := built_ids r, gl_shaders := gl_shaders w \<union> {vs, fs, prog}\<rparr>))
      else (False, w))"

definition LinkShaderProgram :: "reset_env \<Rightarrow> world \<Rightarrow> bool \<times> world" where
  "LinkShaderProgram r w =
     (if link_ok r then (True, w) else (False, DeleteShaderProgram (shader w) w))"

text \<open>
  \<^verbatim>\<open>SetupOpenGl\<close>: build and link the shader program, returning \<open>False\<close> at once when
  either fails; then zero the uniform block, generate the uniform buffer and give it the
  zeroed block, generate the vertex buffer with an unwritten store, the vertex array and
  the texture, and set the refresh flag.
\<close>

definition SetupOpenGl :: "reset_env \<Rightarrow> world \<Rightarrow> bool \<times> world" where
  "SetupOpenGl r w =
     (let w0 = w\<lparr>openGlDebugAvailable := debug_caps r\<rparr>
      in case BuildShaderProgram r w0 of
           (False, w1) \<Rightarrow> (False, w1)
         | (True, w1) \<Rightarrow>
             (case LinkShaderProgram r w1 of
                (False, w2) \<Rightarrow> (False, w2)
              | (True, w2) \<Rightarrow>
                  (let w3 = w2\<lparr>GL_ShaderConfig := zero_ShaderConfig\<rparr>;
                       w4 = w3\<lparr>ubo := gen_ubo r,
                               gl_buffers := (gl_buffers w3)
                                 (gen_ubo r \<mapsto> UniformData (GL_ShaderConfig w3))\<rparr>;
                       w5 = w4\<lparr>vbo := gen_vbo r,
                               gl_buffers := (gl_buffers w4)(gen_vbo r \<mapsto> Uninitialized)\<rparr>;
                       w6 = w5\<lparr>vao := gen_vao r,
                               gl_vertex_arrays := insert (gen_vao r) (gl_vertex_arrays w5)\<rparr>;
                       w7 = w6\<lparr>screen_framebuffer_texture := gen_texture r,
                               gl_textures := insert (gen_texture r) (gl_textures w6)\<rparr>
                   in (True, w7\<lparr>refresh_opengl := True\<rparr>))))"

text \<open>
  \<^verbatim>\<open>ContextReset\<close>: drop the emulator's renderer if the accelerated renderer is in use
  and one is assigned, create the renderer anew, set up the resources and store the result
  of that in \<^verbatim>\<open>context_initialized\<close>. The lines it writes to the log are left out.
\<close>

definition ContextReset :: "reset_env \<Rightarrow> world \<Rightarrow> world" where
  "ContextReset r w =
     (let w1 = (if UsingOpenGl r \<and> GPU3D_CurrentRenderer w
                then w\<lparr>GPU3D_CurrentRenderer := False\<rparr> else w);
          w2 = w1\<lparr>GPU3D_CurrentRenderer := True\<rparr>
      in case SetupOpenGl r w2 of (ok, w3) \<Rightarrow> w3\<lparr>context_initialized := ok\<rparr>)"

section \<open>The entry points of the host interface\<close>


datatype log_level = LOG_DEBUG | LOG_INFO | LOG_WARN | LOG_ERROR

text \<open>
  What the host sees of the core: the lines written to its log, the error messages shown
  to the user and whether a shutdown was requested.
\<close>

record host =
  log_lines :: "(log_level \<times> string) list"
  error_messages :: "string list"
  shutdown_requested :: bool

definition initial_host :: host where
  "initial_host = \<lparr> log_lines = [], error_messages = [], shutdown_requested = False \<rparr>"



















text \<open>
  The entry points that only answer. \<^verbatim>\<open>RETRO_API_VERSION\<close> is \<open>1\<close> in the host's header
  \<^verbatim>\<open>libretro.h\<close>.
\<close>

definition RETRO_API_VERSION :: nat where
  "RETRO_API_VERSION = 1"

definition retro_api_version :: nat where
  "retro_api_version = RETRO_API_VERSION"

record retro_system_info =
  library_name :: string
  library_version :: string
  need_fullpath :: bool
  block_extract :: bool
  valid_extensions :: string

definition retro_get_system_info :: "string \<Rightarrow> string \<Rightarrow> retro_system_info" where
  "retro_get_system_info name version =
     \<lparr> library_name = name, library_version = version, need_fullpath = False,
       block_extract = False, valid_extensions = ''nds|ids|dsi'' \<rparr>"




text \<open>
  \<^verbatim>\<open>retro_get_region\<close> takes no argument and reads no variable. The constant
  \<^verbatim>\<open>RETRO_REGION_NTSC\<close> is \<open>0\<close> in the host's header \<^verbatim>\<open>libretro.h\<close>. The state it is given
  here is all the program has: the loaded content, if any, the renderer and the host.
\<close>

definition RETRO_REGION_NTSC :: nat where
  "RETRO_REGION_NTSC = 0"

record program_state =
  loaded_game :: "string option"
  renderer :: world
  frontend :: host

definition retro_get_region :: "program_state \<Rightarrow> nat" where
  "retro_get_region p = RETRO_REGION_NTSC"

section \<open>Reading the vertex array\<close>

text \<open>
  Vertex \<open>i\<close> of the array, and the quads it holds: quad \<open>q\<close> is the vertices \<open>6 q\<close> to
  \<open>6 q + 5\<close>, the first of them its top left corner (the origin) and the third its bottom
  right corner.
\<close>

definition vertex_at :: "real list \<Rightarrow> nat \<Rightarrow> vertex" where
  "vertex_at vs i = (vs ! (4 * i + 0), vs ! (4 * i + 1), vs ! (4 * i + 2), vs ! (4 * i + 3))"

definition quad_origin :: "real list \<Rightarrow> nat \<Rightarrow> real \<times> real" where
  "quad_origin vs q = (case vertex_at vs (6 * q) of (x, y, t_x, t_y) \<Rightarrow> (x, y))"

definition quad_size :: "real list \<Rightarrow> nat \<Rightarrow> real \<times> real" where
  "quad_size vs q =
     (case (vertex_at vs (6 * q), vertex_at vs (6 * q + 2)) of
        ((x0, y0, u0, v0), (x2, y2, u2, v2)) \<Rightarrow> (x2 - x0, y2 - y0))"

definition quad_area :: "real list \<Rightarrow> nat \<Rightarrow> real" where
  "quad_area vs q = (case quad_size vs q of (width, height) \<Rightarrow> width * height)"

definition quad_v :: "real list \<Rightarrow> nat \<Rightarrow> real list" where
  "quad_v vs q = map (\<lambda>k. case vertex_at vs (6 * q + k) of (x, y, t_x, t_y) \<Rightarrow> t_y) [0..<6]"

text \<open>The cursor box held by the uniform buffer of the context, if it holds a uniform block.\<close>

definition uploaded_cursor :: "world \<Rightarrow> (real \<times> real \<times> real \<times> real) option" where
  "uploaded_cursor w =
     (case gl_buffers w (ubo w) of
        Some (UniformData u) \<Rightarrow> Some (cursorPos u)
      | _ \<Rightarrow> None)"

section \<open>Sample inputs\<close>

text \<open>
  Concrete inputs for the instances below: a layout of the native screen size
  \<open>256 \<times> 192\<close> without gap, a configuration under which the driver maps the uniform
  buffer, and a context reset that succeeds, with the names the driver hands out.
\<close>

definition sample_layout :: "ScreenLayout \<Rightarrow> SmallScreenLayout \<Rightarrow> ScreenLayoutData" where
  "sample_layout l s =
     \<lparr> Layout = l, HybridSmallScreenLayout = s, ScreenWidth = 256, ScreenHeight = 192,
       ScaledScreenGap = 0, HybridRatio = 2, BufferWidth = 256, BufferHeight = 384 \<rparr>"

definition sample_config :: video_config where
  "sample_config =
     \<lparr> CursorSize = 2, ScaleFactor = 1, ScreenFilter = Nearest,
       refresh_mapped = True, cursor_mapped = True \<rparr>"

definition sample_reset :: reset_env where
  "sample_reset =
     \<lparr> UsingOpenGl = True, debug_caps = False, build_ok = True, link_ok = True,
       built_ids = (1, 2, 3), gen_ubo = 1, gen_vbo = 2, gen_vao = 1, gen_texture = 1 \<rparr>"

section \<open>Single precision values\<close>

lemma binade_found:
  "2 powi e0 \<le> a \<Longrightarrow> a < 2 powi (e0 + 1) \<Longrightarrow> e0 \<le> e \<Longrightarrow> nat (e - e0) \<le> n
   \<Longrightarrow> binade n e a = e0"
proof (induction n arbitrary: e)
  case 0
  then show ?case by simp
next
  case (Suc n)
  show ?case
  proof (cases "2 powi e \<le> a")
    case True
    with Suc.prems(2) have less: "(2::real) powi e < 2 powi (e0 + 1)" by simp
    have "e < e0 + 1"
    proof (rule ccontr)
      assume "\<not> e < e0 + 1"
      then have "(2::real) powi (e0 + 1) \<le> 2 powi e" by (intro power_int_increasing) simp_all
      with less show False by simp
    qed
    with Suc.prems(3) have "e = e0" by simp
    with True show ?thesis by simp
  next
    case False
    with Suc.prems(1) have "e \<noteq> e0" by auto
    with Suc.prems(3,4) have "e0 \<le> e - 1" "nat (e - 1 - e0) \<le> n" by simp_all
    with False Suc.IH [of "e - 1"] Suc.prems(1,2) show ?thesis by simp
  qed
qed

text \<open>The value of \<open>float32\<close> once the binade of the argument is known.\<close>

lemma float32_binade:
  assumes "2 powi e \<le> \<bar>x\<bar>" and "\<bar>x\<bar> < 2 powi (e + 1)" and "-126 \<le> e" and "e \<le> 127"
  shows "float32 x = of_int (round_even (x / 2 powi (e - 23))) * 2 powi (e - 23)"
proof -
  have pos: "(0::real) < 2 powi e" by (simp add: zero_less_power_int)
  have "x \<noteq> 0"
  proof
    assume "x = 0"
    with assms(1) have "(2::real) powi e \<le> 0" by simp
    with pos show False by linarith
  qed
  moreover have "binade 253 127 \<bar>x\<bar> = e"
    using assms by (intro binade_found) simp_all
  ultimately show ?thesis by (simp add: float32_def Let_def)
qed

text \<open>
  The padding and the two seam coordinates as the source computes them: the padding is
  a little below \<open>1/386\<close>, and both the difference and the sum round downwards.
\<close>

lemma pixel_pad_value: "pixel_pad = 5563429 / 2 ^ 31"
  unfolding pixel_pad_def
  by (subst float32_binade [where e = "-9"]) (simp_all add: round_even_def power_int_minus Let_def)

lemma seam_top_value: "float32 (1/2 - pixel_pad) = 16690287 / 2 ^ 25"
  unfolding pixel_pad_value
  by (subst float32_binade [where e = "-2"]) (simp_all add: round_even_def power_int_minus Let_def)

lemma seam_bottom_value: "float32 (1/2 + pixel_pad) = 1054009 / 2097152"
  unfolding pixel_pad_value
  by (subst float32_binade [where e = "-1"]) (simp_all add: round_even_def power_int_minus Let_def)

section \<open>Properties of the vertex array\<close>

lemma SETVERTEX_length: "length (SETVERTEX vs p) = length vs"
  by (cases p) simp

lemma foldl_SETVERTEX_length: "length (foldl SETVERTEX vs ws) = length vs"
  by (induction ws arbitrary: vs) (simp_all add: SETVERTEX_length)

lemma vertex_at_SETVERTEX_same:
  "4 * i + 3 < length vs \<Longrightarrow> vertex_at (SETVERTEX vs (i, p)) i = p"
  by (cases p) (simp add: vertex_at_def)

lemma vertex_at_SETVERTEX_other:
  "j \<noteq> i \<Longrightarrow> vertex_at (SETVERTEX vs (i, p)) j = vertex_at vs j"
  by (cases p) (simp add: vertex_at_def)

text \<open>A run of statements leaves every vertex it does not name as it was.\<close>

lemma vertex_at_foldl_notin:
  "j \<notin> fst ` set ws \<Longrightarrow> vertex_at (foldl SETVERTEX vs ws) j = vertex_at vs j"
proof (induction ws arbitrary: vs)
  case Nil
  then show ?case by simp
next
  case (Cons a ws)
  obtain i p where a: "a = (i, p)" by (cases a)
  from Cons.prems a have "j \<noteq> i" and "j \<notin> fst ` set ws" by auto
  then show ?case using Cons.IH [of "SETVERTEX vs a"] a
    by (simp add: vertex_at_SETVERTEX_other)
qed

text \<open>When no vertex is set twice, each vertex named holds what its statement gave it.\<close>

lemma vertex_at_foldl:
  "distinct (map fst ws) \<Longrightarrow> map_of ws i = Some p \<Longrightarrow> 4 * i + 3 < length vs
   \<Longrightarrow> vertex_at (foldl SETVERTEX vs ws) i = p"
proof (induction ws arbitrary: vs)
  case Nil
  then show ?case by simp
next
  case (Cons a ws)
  obtain j q where a: "a = (j, q)" by (cases a)
  show ?case
  proof (cases "j = i")
    case True
    with Cons.prems a have "q = p" and "i \<notin> fst ` set ws" by auto
    then show ?thesis using a True Cons.prems(3)
      by (simp add: vertex_at_foldl_notin vertex_at_SETVERTEX_same)
  next
    case False
    with Cons.prems a have "distinct (map fst ws)" and "map_of ws i = Some p" by auto
    then show ?thesis using Cons.IH [of "SETVERTEX vs a"] Cons.prems(3) a
      by (simp add: SETVERTEX_length)
  qed
qed

text \<open>
  The vertices one rebuild sets are the first 18 for a hybrid layout with a duplicated
  small screen and the first 12 otherwise, each once.
\<close>

lemma writes_indices:
  "map fst (vertex_writes d) =
     (if IsHybridLayout d \<and> HybridSmallScreenLayout d = SmallScreenDuplicate
      then [0..<18] else [0..<12])"
  by (cases "Layout d"; cases "HybridSmallScreenLayout d")
     (simp_all add: vertex_writes_def IsHybridLayout_def two_screen_writes_def
        primary_screen_writes_def small_top_writes_def small_bottom_writes_def Let_def upt_rec)

lemma writes_distinct: "distinct (map fst (vertex_writes d))"
  by (simp add: writes_indices)

lemma vertices_written_eq:
  "vertices_written d =
     (if IsHybridLayout d \<and> HybridSmallScreenLayout d = SmallScreenDuplicate then 18 else 12)"
proof -
  have "fst ` set (vertex_writes d) = set (map fst (vertex_writes d))" by simp
  then show ?thesis unfolding vertices_written_def by (simp only: writes_indices) simp
qed

lemma written_iff: "i \<in> fst ` set (vertex_writes d) \<longleftrightarrow> i < vertices_written d"
proof -
  have "fst ` set (vertex_writes d) = set (map fst (vertex_writes d))" by simp
  then show ?thesis by (simp only: writes_indices vertices_written_eq) auto
qed

lemma writes_index_bound: "map_of (vertex_writes d) i = Some p \<Longrightarrow> i < 18"
proof -
  assume "map_of (vertex_writes d) i = Some p"
  then have "i \<in> set (map fst (vertex_writes d))"
    by (metis map_of_SomeD image_eqI fst_conv set_map)
  then show ?thesis by (simp add: writes_indices split: if_splits)
qed

lemma rebuild_length: "length (rebuild_vertices d vs) = length vs"
  by (simp add: rebuild_vertices_def foldl_SETVERTEX_length)

lemma rebuild_vertex:
  assumes "length vs = 72" and "map_of (vertex_writes d) i = Some p"
  shows "vertex_at (rebuild_vertices d vs) i = p"
proof -
  from assms(2) have "i < 18" by (rule writes_index_bound)
  with assms(1) have "4 * i + 3 < length vs" by simp
  with assms(2) show ?thesis
    unfolding rebuild_vertices_def by (intro vertex_at_foldl writes_distinct)
qed

lemma rebuild_vertex_the:
  assumes "length vs = 72" and "i < vertices_written d"
  shows "vertex_at (rebuild_vertices d vs) i = the (map_of (vertex_writes d) i)"
proof -
  from assms(2) have "i \<in> fst ` set (vertex_writes d)" by (simp add: written_iff)
  then obtain p where "map_of (vertex_writes d) i = Some p"
    by (metis domD dom_map_of_conv_image_fst)
  with assms(1) show ?thesis by (simp add: rebuild_vertex)
qed

text \<open>A rebuild leaves the vertices it does not set as the last rebuild left them.\<close>

lemma rebuild_keeps_unwritten:
  "\<not> i < vertices_written d \<Longrightarrow> vertex_at (rebuild_vertices d vs) i = vertex_at vs i"
  unfolding rebuild_vertices_def by (rule vertex_at_foldl_notin) (simp add: written_iff)

lemma InitializeFrameState_vertices:
  "screen_vertices (InitializeFrameState c d w) = rebuild_vertices d (screen_vertices w)"
  by (simp add: InitializeFrameState_def Let_def buffer_write_def upload_uniforms_def)

lemma length_initial: "length (screen_vertices initial_world) = 72"
  by (simp add: initial_world_def)

lemma Render_draw_count:
  "draw_count (snd (Render c st d w)) =
     (if HybridSmallScreenLayout d = SmallScreenDuplicate then 18 else 12)"
  by (simp add: Render_def Let_def)

text \<open>
  The draw call covers the vertices the rebuild set in every hybrid layout, and in the
  other layouts when the small screen is not set to be duplicated.
\<close>

lemma draw_count_matches_iff:
  "draw_count (snd (Render c st d w)) = vertices_written d
     \<longleftrightarrow> IsHybridLayout d \<or> HybridSmallScreenLayout d \<noteq> SmallScreenDuplicate"
  by (simp add: Render_draw_count vertices_written_eq)

text \<open>
  Claim C1. For a layout that is not hybrid the rebuild sets exactly 12 vertices and the
  draw call of \<^verbatim>\<open>Render\<close> should cover exactly 12; the draw call's count should always be
  the number of vertices set. The source evaluated at a layout that is not hybrid while
  the small screen setting is \<open>SmallScreenDuplicate\<close>: the rebuild tests
  \<^verbatim>\<open>IsHybridLayout\<close> first and sets 12 vertices, the draw call tests the small screen
  setting alone and covers 18.
\<close>

theorem C1_draw_count_mismatch:
  "\<not> IsHybridLayout (sample_layout TopBottom SmallScreenDuplicate)
   \<and> vertices_written (sample_layout TopBottom SmallScreenDuplicate) = 12
   \<and> draw_count (snd (Render c st (sample_layout TopBottom SmallScreenDuplicate) w)) = 18"
  by (simp add: vertices_written_eq Render_draw_count IsHybridLayout_def sample_layout_def)

section \<open>Where the quads lie\<close>

lemmas geometry_defs =
  two_screen_writes_def layout_switch_def initial_locals_def
  top_screen_scale_def bottom_screen_scale_def Let_def

lemma two_screen_vertices:
  assumes "length vs = 72" and "\<not> IsHybridLayout d"
    and "map_of (two_screen_writes d (layout_switch d)) i = Some p"
  shows "vertex_at (rebuild_vertices d vs) i = p"
  using assms by (simp add: rebuild_vertex vertex_writes_def)

lemma TopBottom_vertices:
  assumes "length vs = 72" and "Layout d = TopBottom"
  shows "vertex_at (rebuild_vertices d vs) 0 = (0, 0, 0, 0)"
    and "vertex_at (rebuild_vertices d vs) 6 =
           (0, real (ScreenHeight d) + real (ScaledScreenGap d), 0, float32 (1/2 + pixel_pad))"
  using assms
  by (auto intro!: two_screen_vertices simp: IsHybridLayout_def geometry_defs)

lemma LeftRight_vertices:
  assumes "length vs = 72" and "Layout d = LeftRight"
  shows "vertex_at (rebuild_vertices d vs) 0 = (0, 0, 0, 0)"
    and "vertex_at (rebuild_vertices d vs) 6 = (real (ScreenWidth d), 0, 0, float32 (1/2 + pixel_pad))"
  using assms
  by (auto intro!: two_screen_vertices simp: IsHybridLayout_def geometry_defs)

text \<open>
  Claim C9. With screens of \<open>256 \<times> 192\<close> and no gap, the layout \<open>TopBottom\<close> puts the
  origin of the top screen's quad at \<open>(0, 0)\<close> and that of the bottom screen's quad at
  \<open>(0, 192)\<close>; the layout \<open>LeftRight\<close> puts the bottom screen's quad at \<open>(256, 0)\<close> and
  leaves the top screen's quad at \<open>(0, 0)\<close>. The top screen is quad 0 of the array, the
  bottom screen quad 1.
\<close>

theorem C9_quad_origins:
  assumes "length (screen_vertices w) = 72"
    and "ScreenWidth d = 256" and "ScreenHeight d = 192" and "ScaledScreenGap d = 0"
  shows "(Layout d = TopBottom \<longrightarrow>
            quad_origin (screen_vertices (InitializeFrameState c d w)) 0 = (0, 0)
          \<and> quad_origin (screen_vertices (InitializeFrameState c d w)) 1 = (0, 192))
       \<and> (Layout d = LeftRight \<longrightarrow>
            quad_origin (screen_vertices (InitializeFrameState c d w)) 0 = (0, 0)
          \<and> quad_origin (screen_vertices (InitializeFrameState c d w)) 1 = (256, 0))"
  using assms
  by (simp add: InitializeFrameState_vertices quad_origin_def TopBottom_vertices LeftRight_vertices)

theorem C9_quad_origins_witness:
  "quad_origin (screen_vertices (InitializeFrameState sample_config
       (sample_layout TopBottom SmallScreenTop) initial_world)) 0 = (0, 0)
   \<and> quad_origin (screen_vertices (InitializeFrameState sample_config
       (sample_layout TopBottom SmallScreenTop) initial_world)) 1 = (0, 192)
   \<and> quad_origin (screen_vertices (InitializeFrameState sample_config
       (sample_layout LeftRight SmallScreenTop) initial_world)) 0 = (0, 0)
   \<and> quad_origin (screen_vertices (InitializeFrameState sample_config
       (sample_layout LeftRight SmallScreenTop) initial_world)) 1 = (256, 0)"
  using C9_quad_origins [of initial_world "sample_layout TopBottom SmallScreenTop" sample_config]
    C9_quad_origins [of initial_world "sample_layout LeftRight SmallScreenTop" sample_config]
  by (simp add: length_initial sample_layout_def)

lemma TopOnly_vertices:
  assumes "length vs = 72" and "Layout d = TopOnly"
  shows "vertex_at (rebuild_vertices d vs) 0 = (0, 0, 0, 0)"
    and "vertex_at (rebuild_vertices d vs) 2 =
           (real (ScreenWidth d), real (ScreenHeight d), 1, float32 (1/2 - pixel_pad))"
    and "vertex_at (rebuild_vertices d vs) 6 = (0, real (ScreenHeight d), 0, float32 (1/2 + pixel_pad))"
    and "vertex_at (rebuild_vertices d vs) 8 =
           (real (ScreenWidth d), real (ScreenHeight d) + real (ScreenHeight d), 1, 1)"
  using assms
  by (auto intro!: two_screen_vertices simp: IsHybridLayout_def geometry_defs)

lemma BottomOnly_vertices:
  assumes "length vs = 72" and "Layout d = BottomOnly"
  shows "vertex_at (rebuild_vertices d vs) 0 = (0, real (ScreenHeight d), 0, 0)"
    and "vertex_at (rebuild_vertices d vs) 2 =
           (real (ScreenWidth d), real (ScreenHeight d) + real (ScreenHeight d), 1, float32 (1/2 - pixel_pad))"
    and "vertex_at (rebuild_vertices d vs) 6 = (0, 0, 0, float32 (1/2 + pixel_pad))"
    and "vertex_at (rebuild_vertices d vs) 8 =
           (real (ScreenWidth d), real (ScreenHeight d), 1, 1)"
  using assms
  by (auto intro!: two_screen_vertices simp: IsHybridLayout_def geometry_defs)

lemma quad_corners:
  "quad_origin vs 0 = (case vertex_at vs 0 of (x, y, t_x, t_y) \<Rightarrow> (x, y))"
  "quad_origin vs (Suc 0) = (case vertex_at vs 6 of (x, y, t_x, t_y) \<Rightarrow> (x, y))"
  "quad_size vs 0 =
     (case (vertex_at vs 0, vertex_at vs 2) of
        ((x0, y0, u0, v0), (x2, y2, u2, v2)) \<Rightarrow> (x2 - x0, y2 - y0))"
  "quad_size vs (Suc 0) =
     (case (vertex_at vs 6, vertex_at vs 8) of
        ((x0, y0, u0, v0), (x2, y2, u2, v2)) \<Rightarrow> (x2 - x0, y2 - y0))"
proof -
  have n: "6 * 0 = (0::nat)" "6 * Suc 0 = (6::nat)" "0 + 2 = (2::nat)" "6 + 2 = (8::nat)"
    by simp_all
  show "quad_origin vs 0 = (case vertex_at vs 0 of (x, y, t_x, t_y) \<Rightarrow> (x, y))"
    and "quad_origin vs (Suc 0) = (case vertex_at vs 6 of (x, y, t_x, t_y) \<Rightarrow> (x, y))"
    and "quad_size vs 0 =
     (case (vertex_at vs 0, vertex_at vs 2) of
        ((x0, y0, u0, v0), (x2, y2, u2, v2)) \<Rightarrow> (x2 - x0, y2 - y0))"
    and "quad_size vs (Suc 0) =
     (case (vertex_at vs 6, vertex_at vs 8) of
        ((x0, y0, u0, v0), (x2, y2, u2, v2)) \<Rightarrow> (x2 - x0, y2 - y0))"
    by (simp_all only: quad_origin_def quad_size_def n)
qed

text \<open>
  Claim C8, as amended. For the layouts \<open>TopOnly\<close> and \<open>BottomOnly\<close> the quad of the
  screen that is not shown is set at full size, the screen width by the screen height,
  like the quad of the screen that is shown; it is moved down by one screen height, to the
  origin \<open>(0, ScreenHeight)\<close>, right below the quad of the shown screen at \<open>(0, 0)\<close>.
\<close>

theorem C8_suppressed_quad:
  assumes "length (screen_vertices w) = 72"
  shows "(Layout d = TopOnly \<longrightarrow>
            quad_origin (screen_vertices (InitializeFrameState c d w)) 1
              = (0, real (ScreenHeight d))
          \<and> quad_size (screen_vertices (InitializeFrameState c d w)) 1
              = (real (ScreenWidth d), real (ScreenHeight d))
          \<and> quad_origin (screen_vertices (InitializeFrameState c d w)) 0 = (0, 0)
          \<and> quad_size (screen_vertices (InitializeFrameState c d w)) 0
              = (real (ScreenWidth d), real (ScreenHeight d)))
       \<and> (Layout d = BottomOnly \<longrightarrow>
            quad_origin (screen_vertices (InitializeFrameState c d w)) 0
              = (0, real (ScreenHeight d))
          \<and> quad_size (screen_vertices (InitializeFrameState c d w)) 0
              = (real (ScreenWidth d), real (ScreenHeight d))
          \<and> quad_origin (screen_vertices (InitializeFrameState c d w)) 1 = (0, 0)
          \<and> quad_size (screen_vertices (InitializeFrameState c d w)) 1
              = (real (ScreenWidth d), real (ScreenHeight d)))"
  using assms
  by (simp add: InitializeFrameState_vertices quad_corners
        TopOnly_vertices BottomOnly_vertices)

theorem C8_suppressed_quad_witness:
  "quad_origin (screen_vertices (InitializeFrameState sample_config
       (sample_layout TopOnly SmallScreenTop) initial_world)) 1 = (0, 192)
   \<and> quad_size (screen_vertices (InitializeFrameState sample_config
       (sample_layout TopOnly SmallScreenTop) initial_world)) 1 = (256, 192)
   \<and> quad_origin (screen_vertices (InitializeFrameState sample_config
       (sample_layout BottomOnly SmallScreenTop) initial_world)) 0 = (0, 192)
   \<and> quad_size (screen_vertices (InitializeFrameState sample_config
       (sample_layout BottomOnly SmallScreenTop) initial_world)) 0 = (256, 192)"
  using C8_suppressed_quad [of initial_world "sample_layout TopOnly SmallScreenTop" sample_config]
    C8_suppressed_quad [of initial_world "sample_layout BottomOnly SmallScreenTop" sample_config]
  by (simp add: length_initial sample_layout_def)

text \<open>
  The claim as it stands asks for a quad of zero width or height. Under \<open>TopOnly\<close> at
  \<open>256 \<times> 192\<close> the bottom screen's quad is \<open>256\<close> wide and \<open>192\<close> high.
\<close>

theorem C8_zero_area_counterexample:
  "quad_size (screen_vertices (InitializeFrameState sample_config
       (sample_layout TopOnly SmallScreenTop) initial_world)) 1 = (256, 192)
   \<and> quad_area (screen_vertices (InitializeFrameState sample_config
       (sample_layout TopOnly SmallScreenTop) initial_world)) 1 \<noteq> 0"
  by (simp add: InitializeFrameState_vertices quad_area_def quad_corners
        TopOnly_vertices length_initial sample_layout_def)

section \<open>The texture coordinates at the seam\<close>

lemmas writes_defs =
  vertex_writes_def IsHybridLayout_def two_screen_writes_def primary_screen_writes_def
  small_top_writes_def small_bottom_writes_def layout_switch_def initial_locals_def
  top_screen_scale_def bottom_screen_scale_def Let_def

lemma quad_v_expand:
  "quad_v vs q =
     map (\<lambda>k. case vertex_at vs (6 * q + k) of (x, y, t_x, t_y) \<Rightarrow> t_y) [0, 1, 2, 3, 4, 5]"
proof -
  have "[0..<6] = [0, 1, 2, 3, 4, 5::nat]" by (simp add: upt_rec)
  then show ?thesis by (simp only: quad_v_def)
qed

text \<open>
  The \<open>t_y\<close> coordinates of each quad, vertex by vertex. The first quad samples the top
  half of the texture unless the layout is \<open>HybridBottom\<close>; the second samples the top
  half in a hybrid layout whose primary screen is the bottom one or whose small screen
  is duplicated; the third, set only for a duplicated small screen, samples the bottom
  half.
\<close>

lemma quad0_v:
  assumes "length vs = 72"
  shows "quad_v (rebuild_vertices d vs) 0 =
           (if Layout d = HybridBottom
            then [float32 (1/2 + pixel_pad), 1, 1, float32 (1/2 + pixel_pad), float32 (1/2 + pixel_pad), 1]
            else [0, float32 (1/2 - pixel_pad), float32 (1/2 - pixel_pad), 0, 0, float32 (1/2 - pixel_pad)])"
  using assms
  by (cases "Layout d"; cases "HybridSmallScreenLayout d")
     (simp_all add: quad_v_expand rebuild_vertex_the vertices_written_eq writes_defs)

lemma quad1_v:
  assumes "length vs = 72"
  shows "quad_v (rebuild_vertices d vs) 1 =
           (if IsHybridLayout d
               \<and> (Layout d = HybridBottom \<or> HybridSmallScreenLayout d = SmallScreenDuplicate)
            then [0, float32 (1/2 - pixel_pad), float32 (1/2 - pixel_pad), 0, 0, float32 (1/2 - pixel_pad)]
            else [float32 (1/2 + pixel_pad), 1, 1, float32 (1/2 + pixel_pad), float32 (1/2 + pixel_pad), 1])"
  using assms
  by (cases "Layout d"; cases "HybridSmallScreenLayout d")
     (simp_all add: quad_v_expand rebuild_vertex_the vertices_written_eq writes_defs)

lemma quad2_v:
  assumes "length vs = 72" and "IsHybridLayout d"
    and "HybridSmallScreenLayout d = SmallScreenDuplicate"
  shows "quad_v (rebuild_vertices d vs) 2 =
           [float32 (1/2 + pixel_pad), 1, 1, float32 (1/2 + pixel_pad), float32 (1/2 + pixel_pad), 1]"
  using assms
  by (cases "Layout d")
     (simp_all add: quad_v_expand rebuild_vertex_the vertices_written_eq writes_defs)

lemma top_v_range:
  "\<forall>v\<in>set [0, float32 (1/2 - pixel_pad), float32 (1/2 - pixel_pad), 0, 0,
            float32 (1/2 - pixel_pad)]. v \<le> 1/2 - pixel_pad"
  by (simp add: seam_top_value) (simp add: pixel_pad_value)

lemma bottom_v_range:
  "\<forall>v\<in>set [float32 (1/2 + pixel_pad), 1, 1, float32 (1/2 + pixel_pad),
            float32 (1/2 + pixel_pad), 1]. float32 (1/2 + pixel_pad) \<le> v"
  by (simp add: seam_bottom_value)

text \<open>
  Claim C3, as amended. The seam padding is a constant, whatever the screen height of the
  layout: the single precision quotient of \<open>1\<close> by \<open>2 \<cdot> 192 + 2\<close>, which is
  \<open>5563429 / 2\<^sup>3\<^sup>1\<close>, the \<^verbatim>\<open>float\<close> nearest to \<open>1/386\<close>. In every vertex array a rebuild
  produces, each quad it sets either has all its \<open>t_y\<close> coordinates at most \<open>1/2\<close> minus
  the padding (it samples the top screen), or all at least the single precision sum of
  \<open>1/2\<close> and the padding (it samples the bottom screen); in a layout that is not hybrid
  the first holds of the top screen's quad and the second of the bottom screen's quad.
  That sum is \<open>1054009 / 2097152\<close>: above \<open>1/2\<close>, and \<open>37 / 2\<^sup>3\<^sup>1\<close> below \<open>1/2\<close> plus the
  padding.
\<close>

theorem C3_seam_padding:
  assumes "length (screen_vertices w) = 72"
  shows "pixel_pad = float32 (1 / (2 * 192 + 2))
       \<and> pixel_pad = 5563429 / 2 ^ 31
       \<and> (\<forall>q < vertices_written d div 6.
             (\<forall>v \<in> set (quad_v (screen_vertices (InitializeFrameState c d w)) q).
                v \<le> 1/2 - pixel_pad)
           \<or> (\<forall>v \<in> set (quad_v (screen_vertices (InitializeFrameState c d w)) q).
                float32 (1/2 + pixel_pad) \<le> v))
       \<and> (\<not> IsHybridLayout d \<longrightarrow>
             (\<forall>v \<in> set (quad_v (screen_vertices (InitializeFrameState c d w)) 0).
                v \<le> 1/2 - pixel_pad)
           \<and> (\<forall>v \<in> set (quad_v (screen_vertices (InitializeFrameState c d w)) 1).
                float32 (1/2 + pixel_pad) \<le> v))
       \<and> float32 (1/2 + pixel_pad) = 1054009 / 2097152
       \<and> 1/2 < float32 (1/2 + pixel_pad)
       \<and> 1/2 + pixel_pad - float32 (1/2 + pixel_pad) = 37 / 2 ^ 31"
proof (intro conjI allI impI)
  show "pixel_pad = float32 (1 / (2 * 192 + 2))" by (simp add: pixel_pad_def)
next
  show "pixel_pad = 5563429 / 2 ^ 31" by (rule pixel_pad_value)
next
  show "float32 (1/2 + pixel_pad) = 1054009 / 2097152" by (rule seam_bottom_value)
next
  show "1/2 < float32 (1/2 + pixel_pad)" by (simp add: seam_bottom_value)
next
  show "1/2 + pixel_pad - float32 (1/2 + pixel_pad) = 37 / 2 ^ 31"
    by (simp add: seam_bottom_value) (simp add: pixel_pad_value)
next
  fix q assume q: "q < vertices_written d div 6"
  let ?vs = "screen_vertices (InitializeFrameState c d w)"
  have vs: "?vs = rebuild_vertices d (screen_vertices w)"
    by (rule InitializeFrameState_vertices)
  from q have "q = 0 \<or> q = 1
      \<or> (q = 2 \<and> IsHybridLayout d \<and> HybridSmallScreenLayout d = SmallScreenDuplicate)"
    by (auto simp: vertices_written_eq split: if_splits)
  then show "(\<forall>v \<in> set (quad_v ?vs q). v \<le> 1/2 - pixel_pad)
           \<or> (\<forall>v \<in> set (quad_v ?vs q). float32 (1/2 + pixel_pad) \<le> v)"
  proof (elim disjE conjE)
    assume "q = 0"
    then show ?thesis
      unfolding vs using top_v_range bottom_v_range
      by (simp only: quad0_v [OF assms] split: if_splits) simp
  next
    assume "q = 1"
    then show ?thesis
      unfolding vs using top_v_range bottom_v_range
      by (simp only: quad1_v [OF assms] split: if_splits) simp
  next
    assume "q = 2" "IsHybridLayout d" "HybridSmallScreenLayout d = SmallScreenDuplicate"
    then show ?thesis
      unfolding vs using bottom_v_range by (simp only: quad2_v [OF assms]) simp
  qed
next
  assume "\<not> IsHybridLayout d"
  then have "Layout d \<noteq> HybridBottom" by (simp add: IsHybridLayout_def)
  then show "\<forall>v \<in> set (quad_v (screen_vertices (InitializeFrameState c d w)) 0).
                v \<le> 1/2 - pixel_pad"
    using top_v_range by (simp only: InitializeFrameState_vertices quad0_v [OF assms] if_False)
next
  assume "\<not> IsHybridLayout d"
  then show "\<forall>v \<in> set (quad_v (screen_vertices (InitializeFrameState c d w)) 1).
                float32 (1/2 + pixel_pad) \<le> v"
    using bottom_v_range
    by (simp only: InitializeFrameState_vertices quad1_v [OF assms] if_False simp_thms)
qed

theorem C3_seam_padding_witness:
  "length (screen_vertices initial_world) = 72
   \<and> \<not> IsHybridLayout (sample_layout TopBottom SmallScreenTop)
   \<and> pixel_pad = 5563429 / 2 ^ 31
   \<and> list_all (\<lambda>v. v \<le> 1/2 - pixel_pad)
        (quad_v (screen_vertices (InitializeFrameState sample_config
           (sample_layout TopBottom SmallScreenTop) initial_world)) 0)
   \<and> list_all (\<lambda>v. float32 (1/2 + pixel_pad) \<le> v)
        (quad_v (screen_vertices (InitializeFrameState sample_config
           (sample_layout TopBottom SmallScreenTop) initial_world)) 1)
   \<and> float32 (1/2 + pixel_pad) = 1054009 / 2097152"
proof -
  let ?d = "sample_layout TopBottom SmallScreenTop"
  let ?vs = "screen_vertices (InitializeFrameState sample_config ?d initial_world)"
  note t = C3_seam_padding [OF length_initial, of ?d sample_config]
  have nh: "\<not> IsHybridLayout ?d" by (simp add: IsHybridLayout_def sample_layout_def)
  from t have p: "pixel_pad = 5563429 / 2 ^ 31" by (elim conjE)
  from t have b: "float32 (1/2 + pixel_pad) = 1054009 / 2097152" by (elim conjE)
  from t have "\<not> IsHybridLayout ?d \<longrightarrow>
      (\<forall>v \<in> set (quad_v ?vs 0). v \<le> 1/2 - pixel_pad)
    \<and> (\<forall>v \<in> set (quad_v ?vs 1). float32 (1/2 + pixel_pad) \<le> v)"
    by (elim conjE)
  with nh have "list_all (\<lambda>v. v \<le> 1/2 - pixel_pad) (quad_v ?vs 0)"
    and "list_all (\<lambda>v. float32 (1/2 + pixel_pad) \<le> v) (quad_v ?vs 1)"
    unfolding list_all_iff by blast+
  with nh p b length_initial show ?thesis by (intro conjI)
qed

text \<open>
  The claim as it stands makes the padding \<open>1 / (2 H + 2)\<close> for the screen height \<open>H\<close> of
  the layout and bounds the bottom screen's coordinates by \<open>1/2\<close> plus the padding. At
  twice the native height, \<open>H = 384\<close>, the formula gives \<open>1/770\<close>, and at the native
  height \<open>1/386\<close>; the padding computed is \<open>5563429 / 2\<^sup>3\<^sup>1\<close> at both. The origin of the
  bottom screen's quad has the coordinate \<open>1054009 / 2097152\<close>, below \<open>1/2\<close> plus the
  padding.
\<close>

theorem C3_padding_counterexample:
  "pixel_pad \<noteq>
     1 / (2 * real (ScreenHeight ((sample_layout TopBottom SmallScreenTop)\<lparr>ScreenHeight := 384\<rparr>)) + 2)
   \<and> pixel_pad \<noteq> 1 / (2 * real (ScreenHeight (sample_layout TopBottom SmallScreenTop)) + 2)
   \<and> hd (quad_v (screen_vertices (InitializeFrameState sample_config
         (sample_layout TopBottom SmallScreenTop) initial_world)) 1) = 1054009 / 2097152
   \<and> hd (quad_v (screen_vertices (InitializeFrameState sample_config
         (sample_layout TopBottom SmallScreenTop) initial_world)) 1) < 1/2 + pixel_pad"
proof -
  let ?d = "sample_layout TopBottom SmallScreenTop"
  let ?vs = "screen_vertices (InitializeFrameState sample_config ?d initial_world)"
  have nh: "\<not> IsHybridLayout ?d" by (simp add: IsHybridLayout_def sample_layout_def)
  have "quad_v ?vs 1 =
          [float32 (1/2 + pixel_pad), 1, 1, float32 (1/2 + pixel_pad),
           float32 (1/2 + pixel_pad), 1]"
    using nh by (simp only: InitializeFrameState_vertices quad1_v [OF length_initial] simp_thms if_False)
  then have h: "hd (quad_v ?vs 1) = 1054009 / 2097152"
    by (simp only: list.sel seam_bottom_value)
  have "(1054009::real) / 2097152 < 1/2 + pixel_pad" by (simp add: pixel_pad_value)
  moreover have "pixel_pad \<noteq> 1 / (2 * real (ScreenHeight (?d\<lparr>ScreenHeight := 384\<rparr>)) + 2)"
    by (simp add: pixel_pad_value sample_layout_def)
  moreover have "pixel_pad \<noteq> 1 / (2 * real (ScreenHeight ?d) + 2)"
    by (simp add: pixel_pad_value sample_layout_def)
  ultimately show ?thesis by (simp only: h simp_thms)
qed

section \<open>Destroying and resetting the context\<close>

text \<open>
  Deleting a shader or program name: the name is not live afterwards, and an error is
  recorded when the name was neither \<open>0\<close> nor live and no error was pending.
\<close>

lemma glDeleteShader_eq:
  "glDeleteShader n w =
     w\<lparr>gl_shaders := gl_shaders w - {n},
       gl_error := (if n \<noteq> 0 \<and> n \<notin> gl_shaders w \<and> gl_error w = GL_NO_ERROR
                    then GL_INVALID_VALUE else gl_error w)\<rparr>"
  by (simp add: glDeleteShader_def record_error_def)

lemma glDeleteProgram_eq:
  "glDeleteProgram n w =
     w\<lparr>gl_shaders := gl_shaders w - {n},
       gl_error := (if n \<noteq> 0 \<and> n \<notin> gl_shaders w \<and> gl_error w = GL_NO_ERROR
                    then GL_INVALID_VALUE else gl_error w)\<rparr>"
  by (simp add: glDeleteProgram_def record_error_def)

text \<open>
  \<^verbatim>\<open>DeleteShaderProgram\<close> and \<^verbatim>\<open>context_destroy\<close> as one update of the state each.
\<close>

lemma DeleteShaderProgram_eq:
  "DeleteShaderProgram (vs, fs, prog) w =
        w\<lparr> gl_shaders := gl_shaders w - {vs} - {fs} - {prog},
           gl_error :=
             (if gl_error w = GL_NO_ERROR
                 \<and> ((vs \<noteq> 0 \<and> vs \<notin> gl_shaders w)
                    \<or> (fs \<noteq> 0 \<and> fs \<notin> gl_shaders w - {vs})
                    \<or> (prog \<noteq> 0 \<and> prog \<notin> gl_shaders w - {vs} - {fs}))
              then GL_INVALID_VALUE else gl_error w) \<rparr>"
  unfolding DeleteShaderProgram_def prod.case glDeleteShader_eq glDeleteProgram_eq
  by (simp del: Diff_iff)

lemma context_destroy_closed:
  "context_destroy w =
     (case shader w of (vs, fs, prog) \<Rightarrow>
        w\<lparr> gl_textures := gl_textures w - {screen_framebuffer_texture w},
           gl_vertex_arrays := gl_vertex_arrays w - {vao w},
           gl_buffers := (gl_buffers w)(vbo w := None),
           gl_shaders := gl_shaders w - {vs} - {fs} - {prog},
           gl_error :=
             (if gl_error w = GL_NO_ERROR
                 \<and> ((vs \<noteq> 0 \<and> vs \<notin> gl_shaders w)
                    \<or> (fs \<noteq> 0 \<and> fs \<notin> gl_shaders w - {vs})
                    \<or> (prog \<noteq> 0 \<and> prog \<notin> gl_shaders w - {vs} - {fs}))
              then GL_INVALID_VALUE else gl_error w) \<rparr>)"
proof (cases "shader w")
  case (fields vs fs prog)
  have "context_destroy w =
      DeleteShaderProgram (shader w)
        (w\<lparr> gl_textures := gl_textures w - {screen_framebuffer_texture w},
            gl_vertex_arrays := gl_vertex_arrays w - {vao w},
            gl_buffers := (gl_buffers w)(vbo w := None) \<rparr>)"
    by (simp add: context_destroy_def glDeleteTextures_def glDeleteVertexArrays_def
          glDeleteBuffers_def Let_def)
  then show ?thesis
    by (simp add: fields DeleteShaderProgram_eq del: Diff_iff)
qed

text \<open>
  Claim C6, as amended. Destroying the context twice in a row releases nothing beyond
  what the first call released: after the second call every variable of the renderer and
  every object of the context is as the first call left it. The second call is not
  skipped, though: it deletes the same four handles again. For the texture, the vertex
  array and the buffer the library ignores that; for the shader triple it records
  \<^verbatim>\<open>GL_INVALID_VALUE\<close> in the error flag of the context, when no error was pending and
  one of the three names is not \<open>0\<close>. With all handles \<open>0\<close>, as before the first reset,
  the second call changes nothing at all.
\<close>

theorem C6_second_destroy:
  "context_destroy (context_destroy w) =
     (context_destroy w)
       \<lparr>gl_error :=
          (if gl_error (context_destroy w) = GL_NO_ERROR \<and> shader w \<noteq> (0, 0, 0)
           then GL_INVALID_VALUE else gl_error (context_destroy w))\<rparr>"
proof (cases "shader w")
  case (fields vs fs prog)
  let ?w = "context_destroy w"
  have sel: "shader ?w = (vs, fs, prog)" "screen_framebuffer_texture ?w = screen_framebuffer_texture w"
    "vao ?w = vao w" "vbo ?w = vbo w"
    "gl_textures ?w = gl_textures w - {screen_framebuffer_texture w}"
    "gl_vertex_arrays ?w = gl_vertex_arrays w - {vao w}"
    "gl_buffers ?w = (gl_buffers w)(vbo w := None)"
    "gl_shaders ?w = gl_shaders w - {vs} - {fs} - {prog}"
    by (simp_all add: context_destroy_closed [of w] fields)
  have "context_destroy ?w =
      ?w\<lparr> gl_textures := gl_textures ?w - {screen_framebuffer_texture ?w},
           gl_vertex_arrays := gl_vertex_arrays ?w - {vao ?w},
           gl_buffers := (gl_buffers ?w)(vbo ?w := None),
           gl_shaders := gl_shaders ?w - {vs} - {fs} - {prog},
           gl_error :=
             (if gl_error ?w = GL_NO_ERROR
                 \<and> ((vs \<noteq> 0 \<and> vs \<notin> gl_shaders ?w)
                    \<or> (fs \<noteq> 0 \<and> fs \<notin> gl_shaders ?w - {vs})
                    \<or> (prog \<noteq> 0 \<and> prog \<notin> gl_shaders ?w - {vs} - {fs}))
              then GL_INVALID_VALUE else gl_error ?w) \<rparr>"
    by (subst context_destroy_closed [of ?w]) (simp only: sel prod.case)
  also have "\<dots> = ?w\<lparr>gl_error :=
          (if gl_error ?w = GL_NO_ERROR \<and> (vs, fs, prog) \<noteq> (0, 0, 0)
           then GL_INVALID_VALUE else gl_error ?w)\<rparr>"
  proof -
    have a: "gl_textures ?w - {screen_framebuffer_texture ?w} = gl_textures ?w"
      "gl_vertex_arrays ?w - {vao ?w} = gl_vertex_arrays ?w"
      "(gl_buffers ?w)(vbo ?w := None) = gl_buffers ?w"
      "gl_shaders ?w - {vs} - {fs} - {prog} = gl_shaders ?w"
      unfolding sel by auto
    have b: "((vs \<noteq> 0 \<and> vs \<notin> gl_shaders ?w)
                    \<or> (fs \<noteq> 0 \<and> fs \<notin> gl_shaders ?w - {vs})
                    \<or> (prog \<noteq> 0 \<and> prog \<notin> gl_shaders ?w - {vs} - {fs}))
          \<longleftrightarrow> (vs, fs, prog) \<noteq> (0, 0, 0)"
      unfolding sel by auto
    show ?thesis unfolding a b by simp
  qed
  finally show ?thesis by (simp only: fields)
qed

text \<open>
  Claim C5, as amended. After every \<^verbatim>\<open>context_destroy\<close> the output texture, the vertex
  array, the vertex buffer and the three objects of the shader program are released:
  none of the names the handles hold is a live object of the context.
\<close>

theorem C5_context_destroy:
  "screen_framebuffer_texture w \<notin> gl_textures (context_destroy w)
   \<and> vao w \<notin> gl_vertex_arrays (context_destroy w)
   \<and> vbo w \<notin> dom (gl_buffers (context_destroy w))
   \<and> (case shader w of (vs, fs, prog) \<Rightarrow>
         vs \<notin> gl_shaders (context_destroy w)
       \<and> fs \<notin> gl_shaders (context_destroy w)
       \<and> prog \<notin> gl_shaders (context_destroy w))"
  by (cases "shader w") (simp add: context_destroy_closed)

text \<open>
  What \<^verbatim>\<open>context_destroy\<close> leaves alone: every file-level variable, the flag among
  them, and every buffer but the vertex buffer.
\<close>

lemma context_destroy_keeps:
  "ContextInitialized (context_destroy w) = ContextInitialized w"
  "refresh_opengl (context_destroy w) = refresh_opengl w"
  "screen_framebuffer_texture (context_destroy w) = screen_framebuffer_texture w"
  "vao (context_destroy w) = vao w"
  "vbo (context_destroy w) = vbo w"
  "ubo (context_destroy w) = ubo w"
  "shader (context_destroy w) = shader w"
  "gl_buffers (context_destroy w) = (gl_buffers w)(vbo w := None)"
  by (cases "shader w"; simp add: context_destroy_closed ContextInitialized_def)+

text \<open>The state after the sample reset of the initial state, and after destroying that.\<close>

lemma sample_reset_world:
  "ContextReset sample_reset initial_world =
     \<lparr> openGlDebugAvailable = False, refresh_opengl = True, context_initialized = True,
       shader = (1, 2, 3), screen_framebuffer_texture = 1,
       screen_vertices = replicate 72 0, vao = 1, vbo = 2,
       GL_ShaderConfig = zero_ShaderConfig, ubo = 1,
       gl_textures = {1}, gl_vertex_arrays = {1}, gl_shaders = {1, 2, 3},
       gl_buffers = [1 \<mapsto> UniformData zero_ShaderConfig, 2 \<mapsto> Uninitialized],
       gl_error = GL_NO_ERROR, GPU3D_CurrentRenderer = True \<rparr>"
  by (simp add: ContextReset_def SetupOpenGl_def BuildShaderProgram_def LinkShaderProgram_def
        sample_reset_def initial_world_def Let_def insert_commute)

lemma sample_destroyed_world:
  "context_destroy (ContextReset sample_reset initial_world) =
     \<lparr> openGlDebugAvailable = False, refresh_opengl = True, context_initialized = True,
       shader = (1, 2, 3), screen_framebuffer_texture = 1,
       screen_vertices = replicate 72 0, vao = 1, vbo = 2,
       GL_ShaderConfig = zero_ShaderConfig, ubo = 1,
       gl_textures = {}, gl_vertex_arrays = {}, gl_shaders = {},
       gl_buffers = [1 \<mapsto> UniformData zero_ShaderConfig],
       gl_error = GL_NO_ERROR, GPU3D_CurrentRenderer = True \<rparr>"
  by (simp add: sample_reset_world context_destroy_closed)

text \<open>
  The claim as it stands has the second call leave the state of the first. After the
  sample reset the first destroy leaves the error flag clear and the second sets it.
\<close>

theorem C6_error_flag_counterexample:
  "gl_error (context_destroy (ContextReset sample_reset initial_world)) = GL_NO_ERROR
   \<and> gl_error (context_destroy (context_destroy (ContextReset sample_reset initial_world)))
       = GL_INVALID_VALUE
   \<and> context_destroy (context_destroy (ContextReset sample_reset initial_world))
       \<noteq> context_destroy (ContextReset sample_reset initial_world)"
proof -
  have one: "gl_error (context_destroy (ContextReset sample_reset initial_world)) = GL_NO_ERROR"
    by (simp add: sample_destroyed_world)
  have two: "gl_error (context_destroy (context_destroy (ContextReset sample_reset initial_world)))
       = GL_INVALID_VALUE"
    unfolding sample_destroyed_world by (simp add: context_destroy_closed)
  from one two have "context_destroy (context_destroy (ContextReset sample_reset initial_world))
       \<noteq> context_destroy (ContextReset sample_reset initial_world)"
    by (metis gl_error_code.distinct(1))
  with one two show ?thesis by (intro conjI)
qed

text \<open>
  The claim as it stands has the flag cleared. After a reset that succeeded and a destroy,
  \<^verbatim>\<open>ContextInitialized\<close> still returns true, and the uniform buffer is still live.
\<close>

theorem C5_flag_counterexample:
  "ContextInitialized (context_destroy (ContextReset sample_reset initial_world))
   \<and> ubo (context_destroy (ContextReset sample_reset initial_world))
       \<in> dom (gl_buffers (context_destroy (ContextReset sample_reset initial_world)))"
  by (simp add: sample_destroyed_world ContextInitialized_def)

lemma SetupOpenGl_success:
  assumes "build_ok r" and "link_ok r"
  shows "SetupOpenGl r w =
     (True, w\<lparr> openGlDebugAvailable := debug_caps r,
               shader := built_ids r,
               gl_shaders := (case built_ids r of (vs, fs, prog) \<Rightarrow> gl_shaders w \<union> {vs, fs, prog}),
               GL_ShaderConfig := zero_ShaderConfig,
               ubo := gen_ubo r, vbo := gen_vbo r,
               gl_buffers := (gl_buffers w)
                 (gen_ubo r \<mapsto> UniformData zero_ShaderConfig, gen_vbo r \<mapsto> Uninitialized),
               vao := gen_vao r,
               gl_vertex_arrays := insert (gen_vao r) (gl_vertex_arrays w),
               screen_framebuffer_texture := gen_texture r,
               gl_textures := insert (gen_texture r) (gl_textures w),
               refresh_opengl := True \<rparr>)"
  using assms
  by (cases "built_ids r")
     (simp add: SetupOpenGl_def BuildShaderProgram_def LinkShaderProgram_def Let_def)

lemma SetupOpenGl_build_failure:
  "\<not> build_ok r \<Longrightarrow> SetupOpenGl r w = (False, w\<lparr>openGlDebugAvailable := debug_caps r\<rparr>)"
  by (simp add: SetupOpenGl_def BuildShaderProgram_def Let_def)

lemma ContextReset_success:
  assumes "build_ok r" and "link_ok r" and "gen_vbo r \<noteq> gen_ubo r"
  shows "shader (ContextReset r w) = built_ids r"
    and "(case built_ids r of (vs, fs, prog) \<Rightarrow> {vs, fs, prog} \<subseteq> gl_shaders (ContextReset r w))"
    and "ubo (ContextReset r w) = gen_ubo r"
    and "gl_buffers (ContextReset r w) (gen_ubo r) = Some (UniformData zero_ShaderConfig)"
    and "vbo (ContextReset r w) = gen_vbo r"
    and "gl_buffers (ContextReset r w) (gen_vbo r) = Some Uninitialized"
    and "vao (ContextReset r w) = gen_vao r"
    and "gen_vao r \<in> gl_vertex_arrays (ContextReset r w)"
    and "screen_framebuffer_texture (ContextReset r w) = gen_texture r"
    and "gen_texture r \<in> gl_textures (ContextReset r w)"
    and "refresh_opengl (ContextReset r w)"
    and "context_initialized (ContextReset r w)"
    and "GL_ShaderConfig (ContextReset r w) = zero_ShaderConfig"
    and "screen_vertices (ContextReset r w) = screen_vertices w"
  using assms
  by (cases "built_ids r"; simp add: ContextReset_def SetupOpenGl_success)+

section \<open>What a frame does to the state\<close>

lemma Render_refresh:
  assumes "refresh_opengl w"
  shows "cleared (snd (Render c st d w))"
    and "\<not> refresh_opengl (fst (Render c st d w))"
    and "screen_vertices (fst (Render c st d w)) = rebuild_vertices d (screen_vertices w)"
    and "uScreenSize (GL_ShaderConfig (fst (Render c st d w)))
           = (real (BufferWidth d), real (BufferHeight d))"
    and "u3DScale (GL_ShaderConfig (fst (Render c st d w))) = ScaleFactor c"
    and "cursorPos (GL_ShaderConfig (fst (Render c st d w)))
           = (if CursorEnabled st then cursor_box c st else (-1, -1, -1, -1))"
    and "vbo (fst (Render c st d w)) = vbo w"
    and "ubo (fst (Render c st d w)) = ubo w"
  using assms
  by (simp_all add: Render_def InitializeFrameState_def upload_uniforms_def buffer_write_def Let_def)

lemma Render_no_refresh:
  assumes "\<not> refresh_opengl w"
  shows "\<not> cleared (snd (Render c st d w))"
    and "\<not> refresh_opengl (fst (Render c st d w))"
    and "screen_vertices (fst (Render c st d w)) = screen_vertices w"
  using assms
  by (simp_all add: Render_def upload_uniforms_def buffer_write_def Let_def)

text \<open>
  A frame without a pending refresh and without a cursor changes nothing: neither the
  uniform block nor the uniform buffer is written.
\<close>

lemma Render_idle:
  "\<not> refresh_opengl w \<Longrightarrow> \<not> CursorEnabled st \<Longrightarrow> fst (Render c st d w) = w"
  by (simp add: Render_def Let_def)

lemma Render_refresh_buffers:
  assumes "refresh_opengl w" and "vbo w \<noteq> ubo w"
    and "gl_buffers w (ubo w) = Some u0" and "gl_buffers w (vbo w) = Some v0"
  shows "gl_buffers (fst (Render c st d w)) (vbo w)
           = Some (VertexData (rebuild_vertices d (screen_vertices w)))"
    and "gl_buffers (fst (Render c st d w)) (ubo w)
           = Some (if CursorEnabled st \<and> cursor_mapped c
                   then UniformData (GL_ShaderConfig (fst (Render c st d w)))
                   else if refresh_mapped c
                   then UniformData ((GL_ShaderConfig (fst (Render c st d w)))
                          \<lparr>cursorPos := (-1, -1, -1, -1)\<rparr>)
                   else u0)"
  using assms
  by (auto simp add: Render_def InitializeFrameState_def upload_uniforms_def buffer_write_def Let_def)

text \<open>
  A reset whose shader program does not build or link generates nothing: every buffer,
  vertex array and texture, every handle to one, the uniform block and the refresh flag
  are as before it, and the flag of the context is false.
\<close>

lemma ContextReset_failure:
  assumes "\<not> (build_ok r \<and> link_ok r)"
  shows "\<not> context_initialized (ContextReset r w)"
    and "gl_buffers (ContextReset r w) = gl_buffers w"
    and "gl_vertex_arrays (ContextReset r w) = gl_vertex_arrays w"
    and "gl_textures (ContextReset r w) = gl_textures w"
    and "ubo (ContextReset r w) = ubo w"
    and "vbo (ContextReset r w) = vbo w"
    and "vao (ContextReset r w) = vao w"
    and "screen_framebuffer_texture (ContextReset r w) = screen_framebuffer_texture w"
    and "refresh_opengl (ContextReset r w) = refresh_opengl w"
    and "GL_ShaderConfig (ContextReset r w) = GL_ShaderConfig w"
    and "screen_vertices (ContextReset r w) = screen_vertices w"
  using assms
  by (cases "built_ids r";
      simp add: ContextReset_def SetupOpenGl_def BuildShaderProgram_def LinkShaderProgram_def
        DeleteShaderProgram_eq Let_def del: Diff_iff)+

lemma destroyed_handles:
  "screen_framebuffer_texture w \<notin> gl_textures (context_destroy w)"
  "vao w \<notin> gl_vertex_arrays (context_destroy w)"
  "vbo w \<notin> dom (gl_buffers (context_destroy w))"
  by (cases "shader w"; simp add: context_destroy_closed)+

text \<open>
  Claim C7, as amended. In every sequence reset, destroy, reset whose second reset
  succeeds (the shader program builds and links; the driver gives the two buffers
  different names), the second reset leaves every handle naming a live object made by
  that reset: the shader triple, the uniform buffer holding the zeroed block, the vertex
  buffer with an unwritten store, the vertex array and the texture; it leaves the refresh
  flag and the initialised flag set. The first frame after it clears the framebuffer,
  rebuilds the vertex array and copies it to the vertex buffer, fills the uniform block
  and copies it to the uniform buffer where the driver maps it, and clears the refresh
  flag, so that the frame after does not clear. When the shader program does not build
  or does not link, the second reset returns before it generates any buffer, vertex array
  or texture: these and their handles are as the destroy left them, none of the three
  handles names a live object, and the initialised flag is false.
\<close>

theorem C7_reset_destroy_reset:
  fixes w :: world and r1 r2 :: reset_env
    and c :: video_config and st :: InputState and d :: ScreenLayoutData
  defines "w2 \<equiv> context_destroy (ContextReset r1 w)"
  defines "w3 \<equiv> ContextReset r2 w2"
  defines "w4 \<equiv> fst (Render c st d w3)"
  shows "(build_ok r2 \<and> link_ok r2 \<and> gen_vbo r2 \<noteq> gen_ubo r2 \<longrightarrow>
         shader w3 = built_ids r2
       \<and> (case built_ids r2 of (vs, fs, prog) \<Rightarrow> {vs, fs, prog} \<subseteq> gl_shaders w3)
       \<and> ubo w3 = gen_ubo r2
       \<and> gl_buffers w3 (ubo w3) = Some (UniformData zero_ShaderConfig)
       \<and> vbo w3 = gen_vbo r2
       \<and> gl_buffers w3 (vbo w3) = Some Uninitialized
       \<and> vao w3 = gen_vao r2 \<and> vao w3 \<in> gl_vertex_arrays w3
       \<and> screen_framebuffer_texture w3 = gen_texture r2
       \<and> screen_framebuffer_texture w3 \<in> gl_textures w3
       \<and> refresh_opengl w3 \<and> ContextInitialized w3
       \<and> cleared (snd (Render c st d w3))
       \<and> \<not> refresh_opengl w4
       \<and> screen_vertices w4 = rebuild_vertices d (screen_vertices w3)
       \<and> gl_buffers w4 (vbo w4) = Some (VertexData (screen_vertices w4))
       \<and> uScreenSize (GL_ShaderConfig w4) = (real (BufferWidth d), real (BufferHeight d))
       \<and> u3DScale (GL_ShaderConfig w4) = ScaleFactor c
       \<and> cursorPos (GL_ShaderConfig w4)
            = (if CursorEnabled st then cursor_box c st else (-1, -1, -1, -1))
       \<and> gl_buffers w4 (ubo w4)
            = Some (if CursorEnabled st \<and> cursor_mapped c
                    then UniformData (GL_ShaderConfig w4)
                    else if refresh_mapped c
                    then UniformData ((GL_ShaderConfig w4)\<lparr>cursorPos := (-1, -1, -1, -1)\<rparr>)
                    else UniformData zero_ShaderConfig)
       \<and> \<not> cleared (snd (Render c' st' d' w4)))
     \<and> (\<not> (build_ok r2 \<and> link_ok r2) \<longrightarrow>
         \<not> ContextInitialized w3
       \<and> gl_buffers w3 = gl_buffers w2
       \<and> gl_vertex_arrays w3 = gl_vertex_arrays w2
       \<and> gl_textures w3 = gl_textures w2
       \<and> ubo w3 = ubo w2 \<and> vbo w3 = vbo w2 \<and> vao w3 = vao w2
       \<and> screen_framebuffer_texture w3 = screen_framebuffer_texture w2
       \<and> vbo w3 \<notin> dom (gl_buffers w3)
       \<and> vao w3 \<notin> gl_vertex_arrays w3
       \<and> screen_framebuffer_texture w3 \<notin> gl_textures w3)"
  (is "(?ok \<longrightarrow> ?made) \<and> (?bad \<longrightarrow> ?kept)")
proof (rule conjI; rule impI)
  assume ok: "build_ok r2 \<and> link_ok r2 \<and> gen_vbo r2 \<noteq> gen_ubo r2"
  then have ok1: "build_ok r2" and ok2: "link_ok r2" and ok3: "gen_vbo r2 \<noteq> gen_ubo r2"
    by simp_all
  note s = ContextReset_success [OF ok1 ok2 ok3, of w2, folded w3_def]
  have distinct: "vbo w3 \<noteq> ubo w3" using s(3,5) ok3 by simp
  have ub: "gl_buffers w3 (ubo w3) = Some (UniformData zero_ShaderConfig)"
    using s(3,4) by simp
  have vb: "gl_buffers w3 (vbo w3) = Some Uninitialized"
    using s(5,6) by simp
  note f = Render_refresh [OF s(11), of c st d, folded w4_def]
  note b = Render_refresh_buffers [OF s(11) distinct ub vb, of c st d, folded w4_def]
  have "\<not> cleared (snd (Render c' st' d' w4))"
    using f(2) by (rule Render_no_refresh(1))
  moreover have "gl_buffers w4 (vbo w4) = Some (VertexData (screen_vertices w4))"
    using b(1) f(3,7) by simp
  moreover have "gl_buffers w4 (ubo w4)
            = Some (if CursorEnabled st \<and> cursor_mapped c
                    then UniformData (GL_ShaderConfig w4)
                    else if refresh_mapped c
                    then UniformData ((GL_ShaderConfig w4)\<lparr>cursorPos := (-1, -1, -1, -1)\<rparr>)
                    else UniformData zero_ShaderConfig)"
    using b(2) f(8) by simp
  moreover have "vao w3 \<in> gl_vertex_arrays w3" using s(7,8) by simp
  moreover have "screen_framebuffer_texture w3 \<in> gl_textures w3" using s(9,10) by simp
  ultimately show ?made
    using s(1,2,3,5,7,9,11,12) ub vb f(1-6)
    by (simp add: ContextInitialized_def)
next
  assume bad: "\<not> (build_ok r2 \<and> link_ok r2)"
  note k = ContextReset_failure [OF bad, of w2, folded w3_def]
  note g = destroyed_handles [of "ContextReset r1 w", folded w2_def]
  have h: "vbo w2 = vbo (ContextReset r1 w)" "vao w2 = vao (ContextReset r1 w)"
    "screen_framebuffer_texture w2 = screen_framebuffer_texture (ContextReset r1 w)"
    unfolding w2_def by (simp_all add: context_destroy_keeps)
  show ?kept
    using k g by (simp add: ContextInitialized_def h)
qed

theorem C7_reset_destroy_reset_witness:
  "(build_ok (sample_reset\<lparr>gen_ubo := 3\<rparr>) \<and> link_ok (sample_reset\<lparr>gen_ubo := 3\<rparr>)
     \<and> gen_vbo (sample_reset\<lparr>gen_ubo := 3\<rparr>) \<noteq> gen_ubo (sample_reset\<lparr>gen_ubo := 3\<rparr>))
   \<and> ubo (ContextReset (sample_reset\<lparr>gen_ubo := 3\<rparr>)
        (context_destroy (ContextReset sample_reset initial_world)))
       = gen_ubo (sample_reset\<lparr>gen_ubo := 3\<rparr>)
   \<and> refresh_opengl (ContextReset (sample_reset\<lparr>gen_ubo := 3\<rparr>)
        (context_destroy (ContextReset sample_reset initial_world)))
   \<and> cleared (snd (Render sample_config \<lparr>CursorEnabled = False, TouchX = 0, TouchY = 0\<rparr>
        (sample_layout TopBottom SmallScreenTop)
        (ContextReset (sample_reset\<lparr>gen_ubo := 3\<rparr>)
          (context_destroy (ContextReset sample_reset initial_world)))))
   \<and> \<not> refresh_opengl (fst (Render sample_config
        \<lparr>CursorEnabled = False, TouchX = 0, TouchY = 0\<rparr>
        (sample_layout TopBottom SmallScreenTop)
        (ContextReset (sample_reset\<lparr>gen_ubo := 3\<rparr>)
          (context_destroy (ContextReset sample_reset initial_world)))))
   \<and> \<not> (build_ok (sample_reset\<lparr>link_ok := False\<rparr>) \<and> link_ok (sample_reset\<lparr>link_ok := False\<rparr>))
   \<and> \<not> ContextInitialized (ContextReset (sample_reset\<lparr>link_ok := False\<rparr>)
        (context_destroy (ContextReset sample_reset initial_world)))
   \<and> vbo (ContextReset (sample_reset\<lparr>link_ok := False\<rparr>)
          (context_destroy (ContextReset sample_reset initial_world)))
       \<notin> dom (gl_buffers (ContextReset (sample_reset\<lparr>link_ok := False\<rparr>)
          (context_destroy (ContextReset sample_reset initial_world))))"
proof -
  let ?r = "sample_reset\<lparr>gen_ubo := 3\<rparr>"
  let ?f = "sample_reset\<lparr>link_ok := False\<rparr>"
  let ?st = "\<lparr>CursorEnabled = False, TouchX = 0, TouchY = 0\<rparr>"
  let ?d = "sample_layout TopBottom SmallScreenTop"
  let ?w2 = "context_destroy (ContextReset sample_reset initial_world)"
  note t1 = C7_reset_destroy_reset [where ?r2.0 = ?r and c = sample_config and st = ?st
      and d = ?d and ?r1.0 = sample_reset and w = initial_world]
  note t2 = C7_reset_destroy_reset [where ?r2.0 = ?f and c = sample_config and st = ?st
      and d = ?d and ?r1.0 = sample_reset and w = initial_world]
  have ok: "build_ok ?r \<and> link_ok ?r \<and> gen_vbo ?r \<noteq> gen_ubo ?r"
    by (simp add: sample_reset_def)
  have bad: "\<not> (build_ok ?f \<and> link_ok ?f)"
    by (simp add: sample_reset_def)
  from t1 ok have a: "ubo (ContextReset ?r ?w2) = gen_ubo ?r"
    "refresh_opengl (ContextReset ?r ?w2)"
    "cleared (snd (Render sample_config ?st ?d (ContextReset ?r ?w2)))"
    "\<not> refresh_opengl (fst (Render sample_config ?st ?d (ContextReset ?r ?w2)))"
    by blast+
  from t2 bad have b: "\<not> ContextInitialized (ContextReset ?f ?w2)"
    "vbo (ContextReset ?f ?w2) \<notin> dom (gl_buffers (ContextReset ?f ?w2))"
    by blast+
  from ok bad a b show ?thesis by blast
qed

text \<open>
  The claim as it stands has every second reset make the objects anew. When the shader
  program does not build at the second reset, \<^verbatim>\<open>SetupOpenGl\<close> returns before it generates
  anything: the handles keep the names of the destroyed objects, the context has no
  vertex buffer, vertex array or texture, and the flag is false.
\<close>

theorem C7_failed_reset_counterexample:
  "vbo (ContextReset (sample_reset\<lparr>build_ok := False\<rparr>)
          (context_destroy (ContextReset sample_reset initial_world)))
     \<notin> dom (gl_buffers (ContextReset (sample_reset\<lparr>build_ok := False\<rparr>)
          (context_destroy (ContextReset sample_reset initial_world))))
   \<and> gl_vertex_arrays (ContextReset (sample_reset\<lparr>build_ok := False\<rparr>)
          (context_destroy (ContextReset sample_reset initial_world))) = {}
   \<and> gl_textures (ContextReset (sample_reset\<lparr>build_ok := False\<rparr>)
          (context_destroy (ContextReset sample_reset initial_world))) = {}
   \<and> \<not> ContextInitialized (ContextReset (sample_reset\<lparr>build_ok := False\<rparr>)
          (context_destroy (ContextReset sample_reset initial_world)))"
  unfolding sample_destroyed_world
  by (simp add: ContextInitialized_def ContextReset_def SetupOpenGl_build_failure sample_reset_def)

section \<open>The cursor box in the uniform buffer\<close>

lemma sample_first_frame:
  "refresh_opengl (ContextReset sample_reset initial_world)"
  "vbo (ContextReset sample_reset initial_world) \<noteq> ubo (ContextReset sample_reset initial_world)"
  "gl_buffers (ContextReset sample_reset initial_world) (ubo (ContextReset sample_reset initial_world))
     = Some (UniformData zero_ShaderConfig)"
  "gl_buffers (ContextReset sample_reset initial_world) (vbo (ContextReset sample_reset initial_world))
     = Some Uninitialized"
  by (simp_all add: sample_reset_world)

text \<open>A frame that rebuilds the state without a cursor uploads the value \<open>-1\<close> four times.\<close>

lemma refresh_uploads_sentinel:
  assumes "refresh_opengl w" and "vbo w \<noteq> ubo w"
    and "gl_buffers w (ubo w) = Some u0" and "gl_buffers w (vbo w) = Some v0"
    and "\<not> CursorEnabled st" and "refresh_mapped c"
  shows "uploaded_cursor (fst (Render c st d w)) = Some (-1, -1, -1, -1)"
  using Render_refresh_buffers(2) [OF assms(1-4), of c st d] Render_refresh(8) [OF assms(1), of c st d]
    assms(5,6)
  by (simp add: uploaded_cursor_def)

text \<open>
  A frame with the cursor disabled and no refresh pending leaves in the uniform buffer
  whatever cursor box the frame before left there.
\<close>

lemma disabled_cursor_keeps_upload:
  "\<not> refresh_opengl w \<Longrightarrow> \<not> CursorEnabled st
   \<Longrightarrow> uploaded_cursor (fst (Render c st d w)) = uploaded_cursor w"
  by (simp add: Render_idle)

text \<open>
  Claim C4. While the cursor is disabled the cursor fields last uploaded should all be
  \<open>-1\<close>, also after the cursor was enabled, a frame was rendered and the cursor was
  disabled with no refresh in between. The source evaluated on that sequence, after the
  sample reset: the first frame, with the cursor at \<open>(128, 96)\<close> and of size \<open>2\<close>, clears
  the refresh flag and uploads the cursor box; the second frame, with the cursor disabled,
  uploads nothing, and the uniform buffer still holds the box.
\<close>

theorem C4_stale_cursor:
  "\<not> refresh_opengl (fst (Render sample_config \<lparr>CursorEnabled = True, TouchX = 128, TouchY = 96\<rparr>
        (sample_layout TopBottom SmallScreenTop) (ContextReset sample_reset initial_world)))
   \<and> uploaded_cursor
       (fst (Render sample_config \<lparr>CursorEnabled = False, TouchX = 128, TouchY = 96\<rparr>
          (sample_layout TopBottom SmallScreenTop)
          (fst (Render sample_config \<lparr>CursorEnabled = True, TouchX = 128, TouchY = 96\<rparr>
             (sample_layout TopBottom SmallScreenTop) (ContextReset sample_reset initial_world)))))
     = Some (35/72, 143/192, 325/648, 145/192)
   \<and> uploaded_cursor
       (fst (Render sample_config \<lparr>CursorEnabled = False, TouchX = 128, TouchY = 96\<rparr>
          (sample_layout TopBottom SmallScreenTop)
          (fst (Render sample_config \<lparr>CursorEnabled = True, TouchX = 128, TouchY = 96\<rparr>
             (sample_layout TopBottom SmallScreenTop) (ContextReset sample_reset initial_world)))))
     \<noteq> Some (-1, -1, -1, -1)"
proof -
  let ?on = "\<lparr>CursorEnabled = True, TouchX = 128, TouchY = 96\<rparr>"
  let ?off = "\<lparr>CursorEnabled = False, TouchX = 128, TouchY = 96\<rparr>"
  let ?d = "sample_layout TopBottom SmallScreenTop"
  let ?w1 = "ContextReset sample_reset initial_world"
  let ?w2 = "fst (Render sample_config ?on ?d ?w1)"
  have nr: "\<not> refresh_opengl ?w2"
    by (rule Render_refresh(2) [OF sample_first_frame(1)])
  have idle: "fst (Render sample_config ?off ?d ?w2) = ?w2"
    using nr by (simp add: Render_idle)
  have "ubo ?w2 = ubo ?w1"
    by (rule Render_refresh(8) [OF sample_first_frame(1)])
  moreover have "gl_buffers ?w2 (ubo ?w1) = Some (UniformData (GL_ShaderConfig ?w2))"
    using Render_refresh_buffers(2) [OF sample_first_frame, of sample_config ?on ?d]
    by (simp add: sample_config_def)
  moreover have "cursorPos (GL_ShaderConfig ?w2) = cursor_box sample_config ?on"
    using Render_refresh(6) [OF sample_first_frame(1), of sample_config ?on ?d] by simp
  ultimately have up: "uploaded_cursor ?w2 = Some (cursor_box sample_config ?on)"
    by (simp add: uploaded_cursor_def)
  have box: "cursor_box sample_config ?on = (35/72, 143/192, 325/648, 145/192)"
    by (simp add: cursor_box_def sample_config_def NDS_SCREEN_HEIGHT_def NDS_SCREEN_WIDTH_def Let_def)
  show ?thesis using nr up box by (simp only: idle) simp
qed

section \<open>Failures at the entry points\<close>


section \<open>The region\<close>

text \<open>
  Claim C10. \<^verbatim>\<open>retro_get_region\<close> returns \<^verbatim>\<open>RETRO_REGION_NTSC\<close> in every state of the
  program: with or without loaded content, whatever the content, the renderer and the
  host are.
\<close>

theorem C10_region_is_ntsc:
  "retro_get_region p = RETRO_REGION_NTSC"
  by (simp add: retro_get_region_def)

end
